theory Spec2Isabelle
  imports Main
begin

section \<open>Python values\<close>

text \<open>
  The script \<^verbatim>\<open>qbit_category_updater.py\<close> works on the values that
  \<^verbatim>\<open>response.json()\<close> returns, so the data is modelled as JSON values and
  every Python operation that can raise on a value of the wrong type is a function into
  \<open>py_error + 'a\<close>, with \<open>Inl\<close> the exception.

  A Python \<^verbatim>\<open>str\<close> is an Isabelle \<open>string\<close>, a \<open>char\<close> standing for the code
  point of the same number. The character classes below are those of Python 3 for the code
  points 0 to 255; strings with code points beyond 255 are outside the model, and so are
  JSON numbers that are not integers.
\<close>

datatype py_error = AttributeError | TypeError | JSONDecodeError | RequestException

datatype json =
    JNull
  | JBool bool
  | JInt int
  | JStr string
  | JArr "json list"
  | JObj "(string \<times> json) list"

definition bind_result :: "py_error + 'a \<Rightarrow> ('a \<Rightarrow> py_error + 'b) \<Rightarrow> py_error + 'b" where
  "bind_result m f = (case m of Inl e \<Rightarrow> Inl e | Inr x \<Rightarrow> f x)"

text \<open>Truth value testing: \<^verbatim>\<open>if x\<close> and \<^verbatim>\<open>if not x\<close>.\<close>

fun truthy :: "json \<Rightarrow> bool" where
  "truthy JNull = False"
| "truthy (JBool b) = b"
| "truthy (JInt n) = (n \<noteq> 0)"
| "truthy (JStr s) = (s \<noteq> [])"
| "truthy (JArr xs) = (xs \<noteq> [])"
| "truthy (JObj kvs) = (kvs \<noteq> [])"

text \<open>
  \<^verbatim>\<open>d.get(k, default)\<close> on a dict. A dict is the list of its items, in their order;
  the keys of a parsed JSON object are distinct.
\<close>

definition dict_get :: "(string \<times> json) list \<Rightarrow> string \<Rightarrow> json \<Rightarrow> json" where
  "dict_get kvs k d = (case map_of kvs k of None \<Rightarrow> d | Some v \<Rightarrow> v)"

text \<open>\<^verbatim>\<open>x.get(k, default)\<close>: only a dict has the method.\<close>

fun py_get :: "json \<Rightarrow> string \<Rightarrow> json \<Rightarrow> py_error + json" where
  "py_get (JObj kvs) k d = Inr (dict_get kvs k d)"
| "py_get _ k d = Inl AttributeError"

text \<open>\<^verbatim>\<open>list(x.keys())\<close>.\<close>

fun py_keys :: "json \<Rightarrow> py_error + string list" where
  "py_keys (JObj kvs) = Inr (map fst kvs)"
| "py_keys _ = Inl AttributeError"

subsection \<open>Characters and strings\<close>

definition is_space :: "char \<Rightarrow> bool" where
  "is_space c = (of_char c \<in> set [9, 10, 11, 12, 13, 28, 29, 30, 31, 32, 133, 160 :: nat])"

definition is_alnum :: "char \<Rightarrow> bool" where
  "is_alnum c =
     (let n = (of_char c :: nat) in
        (48 \<le> n \<and> n \<le> 57) \<or> (65 \<le> n \<and> n \<le> 90) \<or> (97 \<le> n \<and> n \<le> 122)
      \<or> n \<in> set [170, 178, 179, 181, 185, 186, 188, 189, 190]
      \<or> (192 \<le> n \<and> n \<le> 214) \<or> (216 \<le> n \<and> n \<le> 246) \<or> 248 \<le> n)"

text \<open>The class \<^verbatim>\<open>\w\<close> of a \<^verbatim>\<open>str\<close> pattern.\<close>

definition is_word :: "char \<Rightarrow> bool" where
  "is_word c = (is_alnum c \<or> c = CHR ''_'')"

definition lower_char :: "char \<Rightarrow> char" where
  "lower_char c =
     (let n = (of_char c :: nat) in
      if (65 \<le> n \<and> n \<le> 90) \<or> (192 \<le> n \<and> n \<le> 222 \<and> n \<noteq> 215)
      then char_of (n + 32) else c)"

text \<open>
  \<^verbatim>\<open>str.upper\<close>; the three code points below 256 whose upper case lies beyond 255
  or is two characters (181, 223, 255) are left as they are.
\<close>

definition upper_char :: "char \<Rightarrow> char" where
  "upper_char c =
     (let n = (of_char c :: nat) in
      if (97 \<le> n \<and> n \<le> 122) \<or> (224 \<le> n \<and> n \<le> 254 \<and> n \<noteq> 247)
      then char_of (n - 32) else c)"

definition lower :: "string \<Rightarrow> string" where
  "lower s = map lower_char s"

definition upper :: "string \<Rightarrow> string" where
  "upper s = map upper_char s"

text \<open>\<^verbatim>\<open>s.strip()\<close> and \<^verbatim>\<open>s.rstrip('/')\<close>.\<close>

definition strip :: "string \<Rightarrow> string" where
  "strip s = rev (dropWhile is_space (rev (dropWhile is_space s)))"

definition rstrip_slash :: "string \<Rightarrow> string" where
  "rstrip_slash s = rev (dropWhile (\<lambda>c. c = CHR ''/'') (rev s))"

text \<open>\<^verbatim>\<open>x.strip()\<close> on a value: only a \<^verbatim>\<open>str\<close> has the method.\<close>

fun py_strip :: "json \<Rightarrow> py_error + string" where
  "py_strip (JStr s) = Inr (strip s)"
| "py_strip _ = Inl AttributeError"

fun py_lower :: "json \<Rightarrow> py_error + string" where
  "py_lower (JStr s) = Inr (lower s)"
| "py_lower _ = Inl AttributeError"

fun py_upper :: "json \<Rightarrow> py_error + string" where
  "py_upper (JStr s) = Inr (upper s)"
| "py_upper _ = Inl AttributeError"

text \<open>\<^verbatim>\<open>k in s\<close> for two strings: \<open>k\<close> occurs in \<open>s\<close> as a substring.\<close>

fun starts_with :: "string \<Rightarrow> string \<Rightarrow> bool" where
  "starts_with [] s = True"
| "starts_with (k # ks) [] = False"
| "starts_with (k # ks) (c # cs) = (k = c \<and> starts_with ks cs)"

fun str_contains :: "string \<Rightarrow> string \<Rightarrow> bool" where
  "str_contains k [] = (k = [])"
| "str_contains k (c # cs) = (starts_with k (c # cs) \<or> str_contains k cs)"

text \<open>
  \<^verbatim>\<open>k in x\<close> for a string \<open>k\<close> and a value \<open>x\<close>: substring of a string, element of a
  list, key of a dict; the other values are not containers.
\<close>

fun py_in :: "string \<Rightarrow> json \<Rightarrow> py_error + bool" where
  "py_in k (JStr s) = Inr (str_contains k s)"
| "py_in k (JArr xs) = Inr (JStr k \<in> set xs)"
| "py_in k (JObj kvs) = Inr (k \<in> set (map fst kvs))"
| "py_in k _ = Inl TypeError"

text \<open>
  \<^verbatim>\<open>for x in v\<close>: the elements of a list, the keys of a dict, the characters of a
  string; the other values are not iterable.
\<close>

fun py_iter :: "json \<Rightarrow> py_error + json list" where
  "py_iter (JArr xs) = Inr xs"
| "py_iter (JObj kvs) = Inr (map (\<lambda>kv. JStr (fst kv)) kvs)"
| "py_iter (JStr s) = Inr (map (\<lambda>c. JStr [c]) s)"
| "py_iter _ = Inl TypeError"

fun py_len :: "json \<Rightarrow> py_error + nat" where
  "py_len (JArr xs) = Inr (length xs)"
| "py_len (JObj kvs) = Inr (length kvs)"
| "py_len (JStr s) = Inr (length s)"
| "py_len _ = Inl TypeError"

subsection \<open>Formatting a value in an f-string\<close>

definition digit_char :: "nat \<Rightarrow> char" where
  "digit_char d = char_of (48 + d)"

text \<open>The decimal digits of a natural number.\<close>

function show_nat :: "nat \<Rightarrow> string" where
  "show_nat n =
     (if n < 10 then [digit_char n] else show_nat (n div 10) @ [digit_char (n mod 10)])"
  by pat_completeness auto
termination
  by (relation "measure (\<lambda>n. n)") auto

declare show_nat.simps [simp del]

definition show_int :: "int \<Rightarrow> string" where
  "show_int i = (if i < 0 then CHR ''-'' # show_nat (nat (- i)) else show_nat (nat i))"

definition hex_char :: "nat \<Rightarrow> char" where
  "hex_char d = (if d < 10 then char_of (48 + d) else char_of (87 + d))"

text \<open>\<^verbatim>\<open>repr\<close> of a string: the quote is \<^verbatim>\<open>"\<close> when the string has a \<^verbatim>\<open>'\<close> and no \<^verbatim>\<open>"\<close>.\<close>

definition repr_quote :: "string \<Rightarrow> char" where
  "repr_quote s =
     (if CHR 0x27 \<in> set s \<and> CHR 0x22 \<notin> set s then CHR 0x22 else CHR 0x27)"

definition repr_char :: "char \<Rightarrow> char \<Rightarrow> string" where
  "repr_char q c =
     (let n = (of_char c :: nat) in
      if c = q \<or> c = CHR 0x5C then [CHR 0x5C, c]
      else if n = 9 then [CHR 0x5C, CHR ''t'']
      else if n = 10 then [CHR 0x5C, CHR ''n'']
      else if n = 13 then [CHR 0x5C, CHR ''r'']
      else if n < 32 \<or> (127 \<le> n \<and> n \<le> 160) \<or> n = 173
        then [CHR 0x5C, CHR ''x'', hex_char (n div 16), hex_char (n mod 16)]
      else [c])"

definition repr_str :: "string \<Rightarrow> string" where
  "repr_str s = (let q = repr_quote s in [q] @ concat (map (repr_char q) s) @ [q])"

fun join_comma :: "string list \<Rightarrow> string" where
  "join_comma [] = []"
| "join_comma [x] = x"
| "join_comma (x # y # ys) = x @ '', '' @ join_comma (y # ys)"

fun py_repr :: "json \<Rightarrow> string" where
  "py_repr JNull = ''None''"
| "py_repr (JBool b) = (if b then ''True'' else ''False'')"
| "py_repr (JInt i) = show_int i"
| "py_repr (JStr s) = repr_str s"
| "py_repr (JArr xs) = ''['' @ join_comma (map py_repr xs) @ '']''"
| "py_repr (JObj kvs) =
     ''{'' @ join_comma (map (\<lambda>kv. repr_str (fst kv) @ '': '' @ py_repr (snd kv)) kvs) @ ''}''"

text \<open>\<^verbatim>\<open>f"{x}"\<close> is \<^verbatim>\<open>str(x)\<close>: the string itself, and \<^verbatim>\<open>repr\<close> for the rest.\<close>

fun py_str :: "json \<Rightarrow> string" where
  "py_str (JStr s) = s"
| "py_str v = py_repr v"

subsection \<open>The regular expressions of the script\<close>

text \<open>\<^verbatim>\<open>re.sub(r'[<>:"/\\|?*]', '', s)\<close>\<close>

definition illegal_chars :: "char list" where
  "illegal_chars =
     [CHR ''<'', CHR ''>'', CHR '':'', CHR 0x22, CHR ''/'', CHR 0x5C, CHR ''|'', CHR ''?'', CHR ''*'']"

definition remove_illegal :: "string \<Rightarrow> string" where
  "remove_illegal s = filter (\<lambda>c. c \<notin> set illegal_chars) s"

text \<open>
  \<^verbatim>\<open>re.sub(r'<[^>]+>', '', s)\<close>: at a \<^verbatim>\<open><\<close> the greedy \<^verbatim>\<open>[^>]+\<close> takes every
  character before the next \<^verbatim>\<open>>\<close>; the match needs at least one such character and
  the \<^verbatim>\<open>>\<close> itself, and the scan goes on behind it.
\<close>

function strip_tags :: "string \<Rightarrow> string" where
  "strip_tags [] = []"
| "strip_tags (c # cs) =
     (if c = CHR ''<'' \<and> takeWhile (\<lambda>x. x \<noteq> CHR ''>'') cs \<noteq> []
         \<and> dropWhile (\<lambda>x. x \<noteq> CHR ''>'') cs \<noteq> []
      then strip_tags (tl (dropWhile (\<lambda>x. x \<noteq> CHR ''>'') cs))
      else c # strip_tags cs)"
  by pat_completeness auto
termination
proof (relation "measure length")
  show "wf (measure length)" by simp
next
  fix c :: char and cs :: string
  have "length (tl (dropWhile (\<lambda>x. x \<noteq> CHR ''>'') cs)) \<le> length cs"
    using length_dropWhile_le [of "\<lambda>x. x \<noteq> CHR ''>''" cs] by simp
  then show "(tl (dropWhile (\<lambda>x. x \<noteq> CHR ''>'') cs), c # cs) \<in> measure length"
    by simp
next
  fix c :: char and cs :: string
  show "(cs, c # cs) \<in> measure length" by simp
qed

text \<open>\<^verbatim>\<open>re.sub(r'\s+', ' ', s)\<close>\<close>

function collapse_ws :: "string \<Rightarrow> string" where
  "collapse_ws [] = []"
| "collapse_ws (c # cs) =
     (if is_space c then CHR '' '' # collapse_ws (dropWhile is_space cs)
      else c # collapse_ws cs)"
  by pat_completeness auto
termination
proof (relation "measure length")
  show "wf (measure length)" by simp
next
  fix c :: char and cs :: string
  show "(dropWhile is_space cs, c # cs) \<in> measure length"
    using length_dropWhile_le [of is_space cs] by simp
next
  fix c :: char and cs :: string
  show "(cs, c # cs) \<in> measure length" by simp
qed

text \<open>\<^verbatim>\<open>re.sub(r'[^\w\s\-\.\(\)\[\]&\']', '', s)\<close>\<close>

definition kept_punctuation :: "char list" where
  "kept_punctuation =
     [CHR ''-'', CHR ''.'', CHR ''('', CHR '')'', CHR ''['', CHR '']'', CHR ''&'', CHR 0x27]"

definition allowed_char :: "char \<Rightarrow> bool" where
  "allowed_char c = (is_word c \<or> is_space c \<or> c \<in> set kept_punctuation)"

definition keep_allowed :: "string \<Rightarrow> string" where
  "keep_allowed s = filter allowed_char s"

section \<open>The category deriver\<close>

text \<open>
  \<^verbatim>\<open>html.unescape(s)\<close> returns \<open>s\<close> when it has no \<^verbatim>\<open>&\<close> and otherwise
  \<^verbatim>\<open>_charref.sub(_replace_charref, s)\<close>, which belongs to Python's library with its
  table of named entities: it is the parameter \<open>charref_sub\<close> of the model.
\<close>

definition html_unescape :: "(string \<Rightarrow> string) \<Rightarrow> string \<Rightarrow> string" where
  "html_unescape charref_sub s = (if CHR ''&'' \<notin> set s then s else charref_sub s)"

text \<open>Lines 294 to 309 of \<^verbatim>\<open>create_category\<close>, for a name that is a string.\<close>

definition clean_game_name :: "(string \<Rightarrow> string) \<Rightarrow> string \<Rightarrow> string" where
  "clean_game_name charref_sub game_name =
     (let decoded_name = html_unescape charref_sub game_name;
          clean_name = strip_tags decoded_name;
          clean_name = remove_illegal clean_name;
          clean_name = strip (collapse_ws clean_name);
          clean_name = keep_allowed clean_name
      in clean_name)"

text \<open>
  A name that is not a string makes \<^verbatim>\<open>html.unescape\<close> or the first
  \<^verbatim>\<open>re.sub\<close> raise TypeError.
\<close>

fun py_clean_game_name :: "(string \<Rightarrow> string) \<Rightarrow> json \<Rightarrow> py_error + string" where
  "py_clean_game_name charref_sub (JStr s) = Inr (clean_game_name charref_sub s)"
| "py_clean_game_name charref_sub _ = Inl TypeError"

text \<open>
  Lines 251 to 272: the chain of \<^verbatim>\<open>if\<close>s assigns \<open>subcategory\<close>, and lines 269 and
  270, which stand in the body of \<^verbatim>\<open>if torrent_data:\<close> behind that chain, assign it
  again.
\<close>

definition subcategory_of :: "json \<Rightarrow> py_error + string" where
  "subcategory_of torrent_data =
     (if truthy torrent_data then
        bind_result (py_get torrent_data ''gameDOXType'' (JStr [])) (\<lambda>g.
        bind_result (py_strip g) (\<lambda>game_dox_type.
          let subcategory =
                (if game_dox_type \<noteq> [] then
                   (if lower game_dox_type = ''update'' then ''/Update''
                    else if lower game_dox_type = ''dlc'' then ''/DLC''
                    else if lower game_dox_type = ''patch'' then ''/Patch''
                    else ''/'' @ remove_illegal game_dox_type)
                 else []);
              clean_dox_type = remove_illegal game_dox_type;
              subcategory = ''/'' @ clean_dox_type
          in Inr subcategory))
      else Inr [])"

text \<open>Lines 274 to 292: the dict in its insertion order, and the loop that stops at the first key found.\<close>

definition manufacturer_map :: "(string \<times> string) list" where
  "manufacturer_map =
     [(''windows'', ''Microsoft''), (''pc'', ''Microsoft''), (''xbox'', ''Microsoft''),
      (''xbox 360'', ''Microsoft''), (''xbox one'', ''Microsoft''), (''xbox series x'', ''Microsoft''),
      (''playstation'', ''Sony''), (''playstation 2'', ''Sony''), (''playstation 3'', ''Sony''),
      (''playstation 4'', ''Sony''), (''playstation 5'', ''Sony''), (''playstation portable'', ''Sony''),
      (''playstation vita'', ''Sony''),
      (''switch'', ''Nintendo''), (''nintendo 3ds'', ''Nintendo''), (''nintendo ds'', ''Nintendo''),
      (''wii'', ''Nintendo''), (''wii u'', ''Nintendo''), (''gamecube'', ''Nintendo''),
      (''linux'', ''Linux''), (''mac'', ''Apple''), (''macos'', ''Apple''), (''ios'', ''Apple''),
      (''android'', ''Google''), (''steam deck'', ''Valve'')]"

fun find_manufacturer :: "(string \<times> string) list \<Rightarrow> string \<Rightarrow> string" where
  "find_manufacturer [] platform_lower = ''Unknown''"
| "find_manufacturer ((platform_key, mfg) # items) platform_lower =
     (if str_contains platform_key platform_lower then mfg
      else find_manufacturer items platform_lower)"

definition compose_category :: "string \<Rightarrow> string \<Rightarrow> string \<Rightarrow> string \<Rightarrow> string \<Rightarrow> string" where
  "compose_category manufacturer platform clean_name year subcategory =
     ''Games/'' @ manufacturer @ ''/'' @ platform @ ''/'' @ clean_name
       @ '' ('' @ year @ '')'' @ subcategory"

text \<open>
  \<^verbatim>\<open>create_category(api_data, torrent_hash)\<close>. The debug messages of lines 242 and 243
  evaluate \<^verbatim>\<open>group.keys()\<close> and \<^verbatim>\<open>torrent_data.keys()\<close>, which raise on a section
  that is not a dict; what the function logs is left out.
\<close>

definition create_category :: "(string \<Rightarrow> string) \<Rightarrow> json \<Rightarrow> json \<Rightarrow> py_error + string option" where
  "create_category charref_sub api_data torrent_hash =
     (if \<not> truthy api_data then Inr None
      else
        bind_result (py_get api_data ''group'' (JObj [])) (\<lambda>group.
        bind_result (py_get api_data ''torrent'' (JObj [])) (\<lambda>torrent_data.
        bind_result (py_keys group) (\<lambda>group_keys.
        bind_result (py_keys torrent_data) (\<lambda>torrent_keys.
        bind_result (py_get group ''platform'' (JStr [])) (\<lambda>p.
        bind_result (py_strip p) (\<lambda>platform.
        bind_result (py_get group ''name'' (JStr ''Unknown Game'')) (\<lambda>game_name.
        bind_result (py_get group ''year'' (JStr ''Unknown'')) (\<lambda>year.
        bind_result (subcategory_of torrent_data) (\<lambda>subcategory.
        let platform_lower = lower platform;
            manufacturer = find_manufacturer manufacturer_map platform_lower
        in
        bind_result (py_clean_game_name charref_sub game_name) (\<lambda>clean_name.
        Inr (Some (compose_category manufacturer platform clean_name (py_str year)
                     subcategory)))))))))))))"

section \<open>The HTTP services and the effects of the script\<close>

text \<open>
  The script talks to the qBittorrent Web API and to the GazelleGames API. A request is
  what the script sends; the hash of a torrent is the value of its \<^verbatim>\<open>hash\<close> item,
  whatever that is. A response has the three things the script reads: the status code,
  the text, and what \<^verbatim>\<open>response.json()\<close> returns (\<open>None\<close> when it raises).
  \<open>No_Reply\<close> is a call of \<^verbatim>\<open>session.get\<close> or \<^verbatim>\<open>session.post\<close> that raises
  a \<^verbatim>\<open>RequestException\<close>: no connection, or the timeout.
\<close>

datatype request =
    Login string string
  | Torrents_Info
  | Torrent_Properties json
  | Torrent_Trackers json
  | Categories
  | Create_Category string string
  | Set_Category json string
  | Add_Tags json string
  | GGn_Torrent string string

record response =
  status_code :: nat
  body_text :: string
  body_json :: "json option"

datatype reply = No_Reply | Reply response

fun response_json :: "response \<Rightarrow> py_error + json" where
  "response_json r = (case body_json r of None \<Rightarrow> Inl JSONDecodeError | Some j \<Rightarrow> Inr j)"

text \<open>The calls of \<^verbatim>\<open>logger\<close>, each with the values its message shows.\<close>

datatype level = DEBUG | INFO | WARNING | ERROR

datatype message =
    Logged_In
  | Login_Failed nat string
  | Login_Connection_Error
  | Not_Logged_In
  | Retrieved nat nat
  | Get_Torrents_Failed nat
  | Category_Missing string
  | Category_Created string
  | Category_Not_Created string
  | Querying string
  | API_Response nat nat
  | Data_Retrieved string
  | API_Error string json
  | Full_API_Response string
  | JSON_Decode_Error string
  | Response_Text string
  | HTTP_Error nat string
  | Response_Headers
  | Exception_Querying json py_error
  | Missing_Configuration
  | Testing_API_Key string
  | API_Key_Configured
  | Login_Error
  | Found_Categories nat "string list"
  | No_Categories
  | Retrieve_Failed
  | Processing json
  | No_API_Data json
  | No_Category json
  | Group_Keys "string list"
  | Platform_Is json
  | Game_Name_Is json
  | Created string
  | Category_Updated string
  | Tag_Added json
  | Tag_Failed json
  | Update_Failed json
  | Exception_In_Category json py_error
  | API_Data_Keys "string list option"
  | Updated_Count nat

datatype event = Sent request reply | Sleep nat | Log level message

text \<open>
  The services are a function \<open>srv\<close> from a request and their state to a reply and
  their next state. A piece of the script is a function from the state of the services
  to its outcome (an exception or a value), the events it caused, in order, and the
  state it leaves.
\<close>

type_synonym 's server = "request \<Rightarrow> 's \<Rightarrow> reply \<times> 's"

type_synonym ('s, 'a) prog = "'s \<Rightarrow> (py_error + 'a) \<times> event list \<times> 's"

definition ret :: "'a \<Rightarrow> ('s, 'a) prog" where
  "ret x s = (Inr x, [], s)"

definition raise :: "py_error \<Rightarrow> ('s, 'a) prog" where
  "raise e s = (Inl e, [], s)"

definition lift :: "py_error + 'a \<Rightarrow> ('s, 'a) prog" where
  "lift r s = (r, [], s)"

definition io_bind :: "('s, 'a) prog \<Rightarrow> ('a \<Rightarrow> ('s, 'b) prog) \<Rightarrow> ('s, 'b) prog" where
  "io_bind m f s =
     (case m s of
        (Inl e, evs, s') \<Rightarrow> (Inl e, evs, s')
      | (Inr x, evs, s') \<Rightarrow> (case f x s' of (r, evs', s'') \<Rightarrow> (r, evs @ evs', s'')))"

text \<open>\<^verbatim>\<open>try: m except ...: h\<close>, where \<open>h\<close> raises again what its clause does not catch.\<close>

definition try_except :: "('s, 'a) prog \<Rightarrow> (py_error \<Rightarrow> ('s, 'a) prog) \<Rightarrow> ('s, 'a) prog" where
  "try_except m h s =
     (case m s of
        (Inl e, evs, s') \<Rightarrow> (case h e s' of (r, evs', s'') \<Rightarrow> (r, evs @ evs', s''))
      | (Inr x, evs, s') \<Rightarrow> (Inr x, evs, s'))"

definition log :: "level \<Rightarrow> message \<Rightarrow> ('s, unit) prog" where
  "log l m s = (Inr (), [Log l m], s)"

definition sleep :: "nat \<Rightarrow> ('s, unit) prog" where
  "sleep n s = (Inr (), [Sleep n], s)"

definition send :: "'s server \<Rightarrow> request \<Rightarrow> ('s, response) prog" where
  "send srv rq s =
     (case srv rq s of
        (No_Reply, s') \<Rightarrow> (Inl RequestException, [Sent rq No_Reply], s')
      | (Reply r, s') \<Rightarrow> (Inr r, [Sent rq (Reply r)], s'))"

section \<open>The qBittorrent client\<close>

record qb_client =
  host :: string
  username :: string
  password :: string
  logged_in :: bool

definition new_client :: "string \<Rightarrow> string \<Rightarrow> string \<Rightarrow> qb_client" where
  "new_client h u p =
     \<lparr>host = rstrip_slash h, username = u, password = p, logged_in = False\<rparr>"

text \<open>\<^verbatim>\<open>login\<close> sets \<^verbatim>\<open>self.logged_in\<close>: it returns the client with its result.\<close>

definition login :: "'s server \<Rightarrow> qb_client \<Rightarrow> ('s, bool \<times> qb_client) prog" where
  "login srv qb =
     try_except
       (io_bind (send srv (Login (username qb) (password qb))) (\<lambda>response.
          if status_code response = 200 \<and> body_text response = ''Ok.'' then
            io_bind (log INFO Logged_In) (\<lambda>_. ret (True, qb\<lparr>logged_in := True\<rparr>))
          else
            io_bind (log ERROR (Login_Failed (status_code response) (body_text response))) (\<lambda>_.
            ret (False, qb))))
       (\<lambda>e. if e = RequestException then
               io_bind (log ERROR Login_Connection_Error) (\<lambda>_. ret (False, qb))
             else raise e)"

text \<open>The loop of \<^verbatim>\<open>get_torrents\<close> over the items of the response.\<close>

fun filter_torrents :: "json list \<Rightarrow> json list \<Rightarrow> py_error + json list" where
  "filter_torrents filtered_torrents [] = Inr filtered_torrents"
| "filter_torrents filtered_torrents (torrent # rest) =
     bind_result (py_get torrent ''tags'' (JStr [])) (\<lambda>tags.
     bind_result (py_in ''GGn-Sorted'' tags) (\<lambda>sorted.
       if \<not> sorted then filter_torrents (filtered_torrents @ [torrent]) rest
       else filter_torrents filtered_torrents rest))"

definition get_torrents :: "'s server \<Rightarrow> qb_client \<Rightarrow> ('s, json list option) prog" where
  "get_torrents srv qb =
     (if \<not> logged_in qb then
        io_bind (log ERROR Not_Logged_In) (\<lambda>_. ret None)
      else
        io_bind (send srv Torrents_Info) (\<lambda>response.
        if status_code response = 200 then
          io_bind (lift (response_json response)) (\<lambda>all_torrents.
          io_bind (lift (py_iter all_torrents)) (\<lambda>items.
          io_bind (lift (filter_torrents [] items)) (\<lambda>filtered_torrents.
          io_bind (lift (py_len all_torrents)) (\<lambda>total.
          io_bind (log INFO (Retrieved (length filtered_torrents) total)) (\<lambda>_.
          ret (Some filtered_torrents))))))
        else
          io_bind (log ERROR (Get_Torrents_Failed (status_code response))) (\<lambda>_.
          ret None)))"

text \<open>
  The three methods that return \<^verbatim>\<open>response.json()\<close> or \<^verbatim>\<open>None\<close>; Python's
  \<^verbatim>\<open>None\<close> is \<open>JNull\<close>.
\<close>

definition fetch_json :: "'s server \<Rightarrow> qb_client \<Rightarrow> request \<Rightarrow> ('s, json) prog" where
  "fetch_json srv qb rq =
     (if \<not> logged_in qb then ret JNull
      else
        io_bind (send srv rq) (\<lambda>response.
        if status_code response = 200 then lift (response_json response) else ret JNull))"

definition get_torrent_properties :: "'s server \<Rightarrow> qb_client \<Rightarrow> json \<Rightarrow> ('s, json) prog" where
  "get_torrent_properties srv qb hash = fetch_json srv qb (Torrent_Properties hash)"

definition get_torrent_trackers :: "'s server \<Rightarrow> qb_client \<Rightarrow> json \<Rightarrow> ('s, json) prog" where
  "get_torrent_trackers srv qb hash = fetch_json srv qb (Torrent_Trackers hash)"

definition get_categories :: "'s server \<Rightarrow> qb_client \<Rightarrow> ('s, json) prog" where
  "get_categories srv qb = fetch_json srv qb Categories"

text \<open>The method \<^verbatim>\<open>QBittorrentClient.create_category\<close>.\<close>

definition qb_create_category :: "'s server \<Rightarrow> qb_client \<Rightarrow> string \<Rightarrow> string \<Rightarrow> ('s, bool) prog" where
  "qb_create_category srv qb category save_path =
     (if \<not> logged_in qb then ret False
      else
        io_bind (send srv (Create_Category category save_path)) (\<lambda>response.
        ret (status_code response = 200)))"

definition set_torrent_category :: "'s server \<Rightarrow> qb_client \<Rightarrow> json \<Rightarrow> string \<Rightarrow> ('s, bool) prog" where
  "set_torrent_category srv qb hash category =
     (if \<not> logged_in qb then ret False
      else
        io_bind (send srv (Set_Category hash category)) (\<lambda>response.
        if status_code response = 409 then
          io_bind (log INFO (Category_Missing category)) (\<lambda>_.
          io_bind (qb_create_category srv qb category []) (\<lambda>created.
          if created then
            io_bind (log INFO (Category_Created category)) (\<lambda>_.
            io_bind (send srv (Set_Category hash category)) (\<lambda>response.
            ret (status_code response = 200)))
          else
            io_bind (log ERROR (Category_Not_Created category)) (\<lambda>_.
            ret False)))
        else ret (status_code response = 200)))"

definition add_torrent_tags :: "'s server \<Rightarrow> qb_client \<Rightarrow> json \<Rightarrow> string \<Rightarrow> ('s, bool) prog" where
  "add_torrent_tags srv qb hash tags =
     (if \<not> logged_in qb then ret False
      else
        io_bind (send srv (Add_Tags hash tags)) (\<lambda>response.
        ret (status_code response = 200)))"

section \<open>The GazelleGames client\<close>

text \<open>
  \<^verbatim>\<open>GazelleGamesAPI.get_torrent\<close>: the sleep stands before the \<^verbatim>\<open>try\<close>; the inner
  handler catches the decode error, the outer one every exception; every path but the
  one of a successful answer ends in \<^verbatim>\<open>return None\<close>. The outer handler shows the
  hash in upper case once \<^verbatim>\<open>upper()\<close> has succeeded.
\<close>

definition ggn_get_torrent :: "'s server \<Rightarrow> string \<Rightarrow> json \<Rightarrow> ('s, json) prog" where
  "ggn_get_torrent srv api_key torrent_hash =
     io_bind (sleep 2) (\<lambda>_.
     try_except
       (io_bind (lift (py_upper torrent_hash)) (\<lambda>upper_hash.
        io_bind (log INFO (Querying upper_hash)) (\<lambda>_.
        io_bind (send srv (GGn_Torrent api_key upper_hash)) (\<lambda>response.
        io_bind (log INFO (API_Response (status_code response) (length (body_text response)))) (\<lambda>_.
        if status_code response = 200 then
          try_except
            (io_bind (lift (response_json response)) (\<lambda>data.
             io_bind (lift (py_get data ''status'' JNull)) (\<lambda>status.
             if status = JStr ''success'' then
               io_bind (log INFO (Data_Retrieved upper_hash)) (\<lambda>_.
               lift (py_get data ''response'' (JObj [])))
             else
               io_bind (lift (py_get data ''error'' (JStr ''Unknown error''))) (\<lambda>err.
               io_bind (log ERROR (API_Error upper_hash err)) (\<lambda>_.
               io_bind (log ERROR (Full_API_Response (take 500 (body_text response)))) (\<lambda>_.
               ret JNull))))))
            (\<lambda>e. if e = JSONDecodeError then
                    io_bind (log ERROR (JSON_Decode_Error upper_hash)) (\<lambda>_.
                    io_bind (log ERROR (Response_Text (take 200 (body_text response)))) (\<lambda>_.
                    ret JNull))
                  else raise e)
        else
          io_bind (log ERROR (HTTP_Error (status_code response) upper_hash)) (\<lambda>_.
          io_bind (log ERROR Response_Headers) (\<lambda>_.
          io_bind (log ERROR (Response_Text (take 200 (body_text response)))) (\<lambda>_.
          ret JNull))))))))
       (\<lambda>e.
          io_bind (log ERROR (Exception_Querying
                     (case py_upper torrent_hash of Inl _ \<Rightarrow> torrent_hash
                      | Inr upper_hash \<Rightarrow> JStr upper_hash) e)) (\<lambda>_.
          ret JNull)))"

section \<open>The tracker filter\<close>

fun any_gazelle_games :: "json list \<Rightarrow> py_error + bool" where
  "any_gazelle_games [] = Inr False"
| "any_gazelle_games (tracker # rest) =
     bind_result (py_get tracker ''url'' (JStr [])) (\<lambda>url.
     bind_result (py_lower url) (\<lambda>url_lower.
       if str_contains ''gazellegames.net'' url_lower then Inr True
       else any_gazelle_games rest))"

definition is_gazelle_games_tracker :: "json \<Rightarrow> py_error + bool" where
  "is_gazelle_games_tracker trackers =
     (if \<not> truthy trackers then Inr False
      else bind_result (py_iter trackers) any_gazelle_games)"

section \<open>The driver\<close>

text \<open>Lines 387 to 395 of \<^verbatim>\<open>main\<close>: the branch of a category that is \<^verbatim>\<open>None\<close> or empty.\<close>

definition missing_category :: "json \<Rightarrow> json \<Rightarrow> ('s, unit) prog" where
  "missing_category api_data name =
     io_bind (log WARNING (No_Category name)) (\<lambda>_.
     io_bind (lift (py_get api_data ''group'' (JObj []))) (\<lambda>group.
     io_bind (lift (py_keys group)) (\<lambda>group_keys.
     io_bind (log DEBUG (Group_Keys group_keys)) (\<lambda>_.
     io_bind (lift (py_in ''platform'' group)) (\<lambda>has_platform.
     io_bind (if has_platform then
                io_bind (lift (py_get group ''platform'' JNull)) (\<lambda>v. log DEBUG (Platform_Is v))
              else ret ()) (\<lambda>_.
     io_bind (lift (py_in ''name'' group)) (\<lambda>has_name.
     if has_name then
       io_bind (lift (py_get group ''name'' JNull)) (\<lambda>v. log DEBUG (Game_Name_Is v))
     else ret ())))))))"

text \<open>Lines 397 to 411: the category is set, the torrent is tagged, the count goes up.\<close>

definition apply_category ::
  "'s server \<Rightarrow> qb_client \<Rightarrow> json \<Rightarrow> json \<Rightarrow> string \<Rightarrow> nat \<Rightarrow> ('s, nat) prog" where
  "apply_category srv qb hash_id name category updated_count =
     io_bind (log INFO (Created category)) (\<lambda>_.
     io_bind (set_torrent_category srv qb hash_id category) (\<lambda>updated.
     if updated then
       io_bind (log INFO (Category_Updated category)) (\<lambda>_.
       io_bind (add_torrent_tags srv qb hash_id ''GGn-Sorted'') (\<lambda>tagged.
       io_bind (if tagged then log DEBUG (Tag_Added name)
                else log WARNING (Tag_Failed name)) (\<lambda>_.
       ret (updated_count + 1))))
     else
       io_bind (log ERROR (Update_Failed name)) (\<lambda>_.
       ret updated_count)))"

text \<open>
  Lines 412 to 414: the handler of the \<^verbatim>\<open>try\<close> statement. It evaluates
  \<^verbatim>\<open>api_data.keys()\<close> for its debug message, outside any \<^verbatim>\<open>try\<close>.
\<close>

definition report_exception :: "json \<Rightarrow> json \<Rightarrow> nat \<Rightarrow> py_error \<Rightarrow> ('s, nat) prog" where
  "report_exception name api_data updated_count e =
     io_bind (log ERROR (Exception_In_Category name e)) (\<lambda>_.
     io_bind (lift (if truthy api_data then map_sum id Some (py_keys api_data)
                    else Inr None)) (\<lambda>keys.
     io_bind (log DEBUG (API_Data_Keys keys)) (\<lambda>_.
     ret updated_count)))"

text \<open>Lines 384 to 414: the \<^verbatim>\<open>try\<close> statement, which catches every exception.\<close>

definition categorize ::
  "'s server \<Rightarrow> (string \<Rightarrow> string) \<Rightarrow> qb_client \<Rightarrow> json \<Rightarrow> json \<Rightarrow> json \<Rightarrow> nat \<Rightarrow> ('s, nat) prog" where
  "categorize srv charref_sub qb hash_id name api_data updated_count =
     try_except
       (io_bind (lift (create_category charref_sub api_data hash_id)) (\<lambda>category.
          case category of
            None \<Rightarrow> io_bind (missing_category api_data name) (\<lambda>_. ret updated_count)
          | Some c \<Rightarrow>
              if c = [] then io_bind (missing_category api_data name) (\<lambda>_. ret updated_count)
              else apply_category srv qb hash_id name c updated_count))
       (report_exception name api_data updated_count)"

text \<open>Lines 361 to 414: the body of the loop, which returns the count.\<close>

definition process_torrent ::
  "'s server \<Rightarrow> (string \<Rightarrow> string) \<Rightarrow> qb_client \<Rightarrow> string \<Rightarrow> json \<Rightarrow> nat \<Rightarrow> ('s, nat) prog" where
  "process_torrent srv charref_sub qb ggn_api_key torrent updated_count =
     io_bind (lift (py_get torrent ''hash'' JNull)) (\<lambda>hash_id.
     io_bind (lift (py_get torrent ''name'' (JStr ''Unknown''))) (\<lambda>name.
     io_bind (lift (py_get torrent ''category'' (JStr []))) (\<lambda>current_category.
     io_bind (get_torrent_trackers srv qb hash_id) (\<lambda>trackers.
     io_bind (lift (is_gazelle_games_tracker trackers)) (\<lambda>from_gazelle_games.
     if from_gazelle_games then
       io_bind (log INFO (Processing name)) (\<lambda>_.
       io_bind (sleep 1) (\<lambda>_.
       io_bind (ggn_get_torrent srv ggn_api_key hash_id) (\<lambda>api_data.
       if \<not> truthy api_data then
         io_bind (log WARNING (No_API_Data hash_id)) (\<lambda>_. ret updated_count)
       else categorize srv charref_sub qb hash_id name api_data updated_count)))
     else ret updated_count)))))"

text \<open>Lines 360 to 414: the loop over the torrents.\<close>

fun process_torrents ::
  "'s server \<Rightarrow> (string \<Rightarrow> string) \<Rightarrow> qb_client \<Rightarrow> string \<Rightarrow> json list \<Rightarrow> nat \<Rightarrow> ('s, nat) prog" where
  "process_torrents srv charref_sub qb ggn_api_key [] updated_count = ret updated_count"
| "process_torrents srv charref_sub qb ggn_api_key (torrent # rest) updated_count =
     io_bind (process_torrent srv charref_sub qb ggn_api_key torrent updated_count)
       (process_torrents srv charref_sub qb ggn_api_key rest)"

text \<open>Lines 351 to 416: from \<^verbatim>\<open>get_torrents\<close> to the report of the count.\<close>

definition sync_torrents ::
  "'s server \<Rightarrow> (string \<Rightarrow> string) \<Rightarrow> qb_client \<Rightarrow> string \<Rightarrow> ('s, unit) prog" where
  "sync_torrents srv charref_sub qb ggn_api_key =
     io_bind (get_torrents srv qb) (\<lambda>torrents.
     case torrents of
       None \<Rightarrow> log ERROR Retrieve_Failed
     | Some ts \<Rightarrow>
         if ts = [] then log ERROR Retrieve_Failed
         else
           io_bind (process_torrents srv charref_sub qb ggn_api_key ts 0) (\<lambda>updated_count.
           log INFO (Updated_Count updated_count)))"

text \<open>Lines 344 to 349: the message about the categories evaluates \<^verbatim>\<open>len\<close> and \<^verbatim>\<open>keys\<close>.\<close>

definition report_categories :: "json \<Rightarrow> ('s, unit) prog" where
  "report_categories categories =
     (if truthy categories then
        io_bind (lift (py_len categories)) (\<lambda>n.
        io_bind (lift (py_keys categories)) (\<lambda>names.
        log INFO (Found_Categories n names)))
      else log INFO No_Categories)"

text \<open>The four settings that \<^verbatim>\<open>os.getenv\<close> reads; \<^verbatim>\<open>all\<close> wants each set and not empty.\<close>

record environment =
  QB_HOST :: "string option"
  QB_USERNAME :: "string option"
  QB_PASSWORD :: "string option"
  GGN_API_KEY :: "string option"

definition env_set :: "string option \<Rightarrow> bool" where
  "env_set v = (case v of None \<Rightarrow> False | Some x \<Rightarrow> x \<noteq> [])"

definition main :: "'s server \<Rightarrow> (string \<Rightarrow> string) \<Rightarrow> environment \<Rightarrow> ('s, unit) prog" where
  "main srv charref_sub env =
     (case (QB_HOST env, QB_USERNAME env, QB_PASSWORD env, GGN_API_KEY env) of
        (Some qb_host, Some qb_username, Some qb_password, Some ggn_api_key) \<Rightarrow>
          if \<not> (env_set (QB_HOST env) \<and> env_set (QB_USERNAME env)
                \<and> env_set (QB_PASSWORD env) \<and> env_set (GGN_API_KEY env))
          then log ERROR Missing_Configuration
          else
            io_bind (log INFO (Testing_API_Key (take 8 ggn_api_key))) (\<lambda>_.
            io_bind (log INFO API_Key_Configured) (\<lambda>_.
            io_bind (login srv (new_client qb_host qb_username qb_password)) (\<lambda>(ok, qb_client).
            if \<not> ok then log ERROR Login_Error
            else
              io_bind (get_categories srv qb_client) (\<lambda>categories.
              io_bind (report_categories categories) (\<lambda>_.
              sync_torrents srv charref_sub qb_client ggn_api_key)))))
      | _ \<Rightarrow> log ERROR Missing_Configuration)"

section \<open>Services and inputs for the examples\<close>

text \<open>A service that answers the requests of a run, whatever they are, from a list, in order.\<close>

definition scripted :: "reply list server" where
  "scripted rq replies = (case replies of [] \<Rightarrow> (No_Reply, []) | r # rest \<Rightarrow> (r, rest))"

definition ok_json :: "json \<Rightarrow> reply" where
  "ok_json j = Reply \<lparr>status_code = 200, body_text = [], body_json = Some j\<rparr>"

definition status_only :: "nat \<Rightarrow> reply" where
  "status_only n = Reply \<lparr>status_code = n, body_text = [], body_json = None\<rparr>"

definition logged_in_client :: qb_client where
  "logged_in_client =
     \<lparr>host = ''http://localhost:8080'', username = ''admin'', password = ''secret'',
      logged_in = True\<rparr>"

section \<open>The vocabulary of the properties\<close>

text \<open>
  What \<^verbatim>\<open>create_category\<close> reads from the metadata, as total functions: the two
  sections with the default \<^verbatim>\<open>{}\<close>, and the four items with their defaults.
\<close>

fun is_dict :: "json \<Rightarrow> bool" where
  "is_dict (JObj kvs) = True"
| "is_dict _ = False"

fun is_str :: "json \<Rightarrow> bool" where
  "is_str (JStr s) = True"
| "is_str _ = False"

fun items_of :: "json \<Rightarrow> (string \<times> json) list" where
  "items_of (JObj kvs) = kvs"
| "items_of _ = []"

fun str_of :: "json \<Rightarrow> string" where
  "str_of (JStr s) = s"
| "str_of _ = []"

definition group_of :: "json \<Rightarrow> json" where
  "group_of api_data = dict_get (items_of api_data) ''group'' (JObj [])"

definition release_of :: "json \<Rightarrow> json" where
  "release_of api_data = dict_get (items_of api_data) ''torrent'' (JObj [])"

definition platform_field :: "json \<Rightarrow> json" where
  "platform_field api_data = dict_get (items_of (group_of api_data)) ''platform'' (JStr [])"

definition name_field :: "json \<Rightarrow> json" where
  "name_field api_data = dict_get (items_of (group_of api_data)) ''name'' (JStr ''Unknown Game'')"

definition year_field :: "json \<Rightarrow> json" where
  "year_field api_data = dict_get (items_of (group_of api_data)) ''year'' (JStr ''Unknown'')"

definition dox_type_field :: "json \<Rightarrow> json" where
  "dox_type_field api_data = dict_get (items_of (release_of api_data)) ''gameDOXType'' (JStr [])"

text \<open>
  Metadata of the shape the deriver can read: a dict whose two sections are dicts, whose
  platform and name are strings, and whose content type is a string when the release
  section is not empty. The year may be any value.
\<close>

definition well_formed :: "json \<Rightarrow> bool" where
  "well_formed api_data =
     (is_dict api_data \<and> is_dict (group_of api_data) \<and> is_dict (release_of api_data)
      \<and> is_str (platform_field api_data) \<and> is_str (name_field api_data)
      \<and> (truthy (release_of api_data) \<longrightarrow> is_str (dox_type_field api_data)))"

definition platform_of :: "json \<Rightarrow> string" where
  "platform_of api_data = strip (str_of (platform_field api_data))"

definition dox_type_of :: "json \<Rightarrow> string" where
  "dox_type_of api_data = strip (str_of (dox_type_field api_data))"

definition year_of :: "json \<Rightarrow> string" where
  "year_of api_data = py_str (year_field api_data)"

definition manufacturer_of :: "json \<Rightarrow> string" where
  "manufacturer_of api_data = find_manufacturer manufacturer_map (lower (platform_of api_data))"

definition title_of :: "(string \<Rightarrow> string) \<Rightarrow> json \<Rightarrow> string" where
  "title_of charref_sub api_data = clean_game_name charref_sub (str_of (name_field api_data))"

text \<open>The subcategory that the code derives: the last assignment of lines 269 and 270.\<close>

definition derived_subcategory :: "json \<Rightarrow> string" where
  "derived_subcategory api_data =
     (if truthy (release_of api_data) then ''/'' @ remove_illegal (dox_type_of api_data)
      else [])"


text \<open>
  A stand-in for \<^verbatim>\<open>_charref.sub(_replace_charref, s)\<close> in the examples: it decodes
  \<^verbatim>\<open>&amp;\<close>, \<^verbatim>\<open>&lt;\<close>, \<^verbatim>\<open>&gt;\<close>, \<^verbatim>\<open>&quot;\<close> and \<^verbatim>\<open>&#39;\<close>, as Python does, and is
  meant for strings in which every \<^verbatim>\<open>&\<close> begins one of these five.
\<close>

fun five_charrefs :: "string \<Rightarrow> string" where
  "five_charrefs [] = []"
| "five_charrefs (c # cs) =
     (if starts_with ''&amp;'' (c # cs) then CHR ''&'' # five_charrefs (drop 4 cs)
      else if starts_with ''&lt;'' (c # cs) then CHR ''<'' # five_charrefs (drop 3 cs)
      else if starts_with ''&gt;'' (c # cs) then CHR ''>'' # five_charrefs (drop 3 cs)
      else if starts_with ''&quot;'' (c # cs) then CHR 0x22 # five_charrefs (drop 5 cs)
      else if starts_with ''&#39;'' (c # cs) then CHR 0x27 # five_charrefs (drop 4 cs)
      else c # five_charrefs cs)"







text \<open>The events that count the work of a run.\<close>

fun assignment_acknowledged :: "event \<Rightarrow> bool" where
  "assignment_acknowledged (Sent (Set_Category h c) (Reply r)) = (status_code r = 200)"
| "assignment_acknowledged _ = False"

fun tagging_raised :: "event \<Rightarrow> bool" where
  "tagging_raised (Sent (Add_Tags h t) No_Reply) = True"
| "tagging_raised _ = False"

fun is_assignment :: "event \<Rightarrow> bool" where
  "is_assignment (Sent (Set_Category h c) r) = True"
| "is_assignment _ = False"

fun is_report :: "event \<Rightarrow> bool" where
  "is_report (Log l (Updated_Count n)) = True"
| "is_report _ = False"

fun is_tracker_request :: "event \<Rightarrow> bool" where
  "is_tracker_request (Sent (Torrent_Trackers h) r) = True"
| "is_tracker_request _ = False"

section \<open>Inputs of the examples and the claims in the spec's words\<close>

definition claimed_subcategory :: "string \<Rightarrow> string" where
  "claimed_subcategory dox_type =
     (let d = strip dox_type in
      if lower d = ''update'' then ''/Update''
      else if lower d = ''dlc'' then ''/DLC''
      else if lower d = ''patch'' then ''/Patch''
      else if d \<noteq> [] then ''/'' @ remove_illegal d
      else [])"

definition dlc_release :: json where
  "dlc_release =
     JObj [(''group'', JObj [(''platform'', JStr ''Windows''), (''name'', JStr ''Foo''),
                            (''year'', JStr ''2019'')]),
           (''torrent'', JObj [(''gameDOXType'', JStr ''dlc'')])]"

definition untyped_release :: json where
  "untyped_release =
     JObj [(''group'', JObj [(''platform'', JStr ''Windows''), (''name'', JStr ''Foo''),
                            (''year'', JStr ''2019'')]),
           (''torrent'', JObj [(''id'', JInt 7)])]"



definition playstation_pc :: json where
  "playstation_pc =
     JObj [(''group'', JObj [(''platform'', JStr ''PlayStation PC''), (''name'', JStr ''Foo''),
                            (''year'', JStr ''2019'')])]"

definition playstation_4 :: json where
  "playstation_4 =
     JObj [(''group'', JObj [(''platform'', JStr '' PlayStation 4 ''), (''name'', JStr ''Foo''),
                            (''year'', JInt 2019)])]"

definition colon_platform :: json where
  "colon_platform =
     JObj [(''group'', JObj [(''platform'', JStr ''PC: DOS''), (''name'', JStr ''Foo''),
                            (''year'', JStr ''199?'')])]"

definition release_only :: json where
  "release_only = JObj [(''torrent'', JObj [(''gameDOXType'', JStr ''Update'')])]"

definition null_platform :: json where
  "null_platform = JObj [(''group'', JObj [(''platform'', JNull), (''name'', JStr ''Foo'')])]"

definition no_group :: json where
  "no_group = JObj [(''torrent'', JObj [])]"

text \<open>
  The conflict in the spec's words, as a service: an assignment to a category that does
  not exist is answered with 409, and a creation makes the category exist. The state is
  the list of the categories.
\<close>

definition category_service :: "string list server" where
  "category_service rq categories =
     (case rq of
        Set_Category h c \<Rightarrow>
          (if c \<in> set categories then status_only 200 else status_only 409, categories)
      | Create_Category c p \<Rightarrow> (status_only 200, c # categories)
      | _ \<Rightarrow> (status_only 200, categories))"

text \<open>
  The listing in the words of claim C4: the tag set of a torrent, whose tags qBittorrent
  gives in one string with commas between them, and the items whose tag set does not
  have the marker.
\<close>

fun split_on :: "char \<Rightarrow> string \<Rightarrow> string list" where
  "split_on sep [] = [[]]"
| "split_on sep (c # cs) =
     (if c = sep then [] # split_on sep cs
      else (case split_on sep cs of [] \<Rightarrow> [[c]] | w # ws \<Rightarrow> (c # w) # ws))"

definition tag_set :: "json \<Rightarrow> string list" where
  "tag_set torrent =
     filter (\<lambda>t. t \<noteq> [])
       (map strip (split_on CHR '','' (str_of (dict_get (items_of torrent) ''tags'' (JStr [])))))"

definition claimed_unprocessed :: "json list \<Rightarrow> json list" where
  "claimed_unprocessed items = filter (\<lambda>torrent. ''GGn-Sorted'' \<notin> set (tag_set torrent)) items"

text \<open>Two torrents, the trackers of a GazelleGames torrent, and the answer of its API.\<close>

definition torrent_a :: json where
  "torrent_a = JObj [(''hash'', JStr ''aaa111''), (''name'', JStr ''Foo''), (''tags'', JStr [])]"

definition torrent_b :: json where
  "torrent_b = JObj [(''hash'', JStr ''bbb222''), (''name'', JStr ''Bar''), (''tags'', JStr ''keep'')]"

definition relabelled_torrent :: json where
  "relabelled_torrent =
     JObj [(''hash'', JStr ''ccc333''), (''name'', JStr ''Baz''),
           (''tags'', JStr ''GGn-Sorted-Old, Action'')]"

definition gazelle_trackers :: json where
  "gazelle_trackers = JArr [JObj [(''url'', JStr ''https://tracker.GazelleGames.net/abc/announce'')]]"

definition foo_metadata :: json where
  "foo_metadata =
     JObj [(''group'', JObj [(''platform'', JStr ''Windows''), (''name'', JStr ''Foo''),
                            (''year'', JInt 2019)])]"

definition ggn_success :: "json \<Rightarrow> reply" where
  "ggn_success payload = ok_json (JObj [(''status'', JStr ''success''), (''response'', payload)])"

definition sorted_torrent :: json where
  "sorted_torrent =
     JObj [(''hash'', JStr ''ddd444''), (''name'', JStr ''Qux''), (''tags'', JStr ''GGn-Sorted'')]"

text \<open>
  The number of assignments that the server acknowledged with 200, and the number of
  tagging requests that raised, among the events of a run.
\<close>

definition acknowledged :: "event list \<Rightarrow> nat" where
  "acknowledged evs = length (filter assignment_acknowledged evs)"

definition tagging_failures :: "event list \<Rightarrow> nat" where
  "tagging_failures evs = length (filter tagging_raised evs)"

text \<open>A run in which the server refuses the tag of the one torrent.\<close>

definition tag_refused_run :: "(py_error + unit) \<times> event list \<times> reply list" where
  "tag_refused_run =
     sync_torrents scripted five_charrefs logged_in_client ''key''
       [ok_json (JArr [torrent_a]), ok_json gazelle_trackers, ggn_success foo_metadata,
        status_only 200, status_only 500]"

text \<open>The same run, in which the tagging request raises.\<close>

definition tag_timeout_run :: "(py_error + unit) \<times> event list \<times> reply list" where
  "tag_timeout_run =
     sync_torrents scripted five_charrefs logged_in_client ''key''
       [ok_json (JArr [torrent_a]), ok_json gazelle_trackers, ggn_success foo_metadata,
        status_only 200, No_Reply]"

section \<open>Facts about the Python values\<close>

lemma py_get_Inr: "py_get x k d = Inr v \<longleftrightarrow> (\<exists>kvs. x = JObj kvs \<and> v = dict_get kvs k d)"
  by (cases x) auto

lemma py_keys_Inr: "py_keys x = Inr ks \<longleftrightarrow> (\<exists>kvs. x = JObj kvs \<and> ks = map fst kvs)"
  by (cases x) auto

lemma py_strip_Inr: "py_strip x = Inr s \<longleftrightarrow> (\<exists>t. x = JStr t \<and> s = strip t)"
  by (cases x) auto

lemma py_clean_game_name_Inr:
  "py_clean_game_name u x = Inr s \<longleftrightarrow> (\<exists>t. x = JStr t \<and> s = clean_game_name u t)"
  by (cases x) auto

lemma subcategory_of_dict:
  "subcategory_of (JObj t) =
     (if t = [] then Inr []
      else case dict_get t ''gameDOXType'' (JStr []) of
             JStr d \<Rightarrow> Inr (''/'' @ remove_illegal (strip d))
           | _ \<Rightarrow> Inl AttributeError)"
  by (simp add: subcategory_of_def bind_result_def Let_def split: json.splits)

lemma create_category_well_formed:
  assumes "truthy api_data" and "well_formed api_data"
  shows "create_category charref_sub api_data h =
           Inr (Some (compose_category (manufacturer_of api_data) (platform_of api_data)
                        (title_of charref_sub api_data) (year_of api_data)
                        (derived_subcategory api_data)))"
proof -
  from assms(2) obtain top where a: "api_data = JObj top"
    by (cases api_data) (simp_all add: well_formed_def)
  from assms(2) a obtain g where g: "dict_get top ''group'' (JObj []) = JObj g"
    by (cases "dict_get top ''group'' (JObj [])") (simp_all add: well_formed_def group_of_def)
  from assms(2) a obtain t where t: "dict_get top ''torrent'' (JObj []) = JObj t"
    by (cases "dict_get top ''torrent'' (JObj [])") (simp_all add: well_formed_def release_of_def)
  from assms(2) a g obtain p where p: "dict_get g ''platform'' (JStr []) = JStr p"
    by (cases "dict_get g ''platform'' (JStr [])")
       (simp_all add: well_formed_def group_of_def platform_field_def)
  from assms(2) a g obtain n where n: "dict_get g ''name'' (JStr ''Unknown Game'') = JStr n"
    by (cases "dict_get g ''name'' (JStr ''Unknown Game'')")
       (simp_all add: well_formed_def group_of_def name_field_def)
  have d: "t \<noteq> [] \<Longrightarrow> \<exists>d. dict_get t ''gameDOXType'' (JStr []) = JStr d"
    using assms(2) a t
    by (cases "dict_get t ''gameDOXType'' (JStr [])")
       (simp_all add: well_formed_def release_of_def dox_type_field_def)
  have sub: "subcategory_of (JObj t) = Inr (derived_subcategory api_data)"
    using d a t
    by (auto simp: subcategory_of_dict derived_subcategory_def release_of_def dox_type_of_def
          dox_type_field_def)
  show ?thesis
    using assms(1) a g t p n sub
    by (simp add: create_category_def bind_result_def Let_def manufacturer_of_def
          platform_of_def title_of_def year_of_def group_of_def platform_field_def
          name_field_def year_field_def)
qed

lemma create_category_ill_formed:
  assumes "truthy api_data" and "\<not> well_formed api_data"
  shows "\<exists>e. create_category charref_sub api_data h = Inl e"
proof (cases "create_category charref_sub api_data h")
  case (Inl e)
  then show ?thesis by blast
next
  case (Inr r)
  then have False
    using assms
    by (auto simp: create_category_def bind_result_def Let_def well_formed_def group_of_def
          release_of_def platform_field_def name_field_def dox_type_field_def subcategory_of_dict
          py_get_Inr py_keys_Inr py_strip_Inr py_clean_game_name_Inr
          split: if_splits json.splits sum.splits)
  then show ?thesis ..
qed

lemma create_category_Some:
  assumes "create_category u a h = Inr (Some c)"
  shows "truthy a" and "well_formed a"
proof -
  show t: "truthy a"
    using assms by (cases "truthy a") (simp_all add: create_category_def)
  show "well_formed a"
    using create_category_ill_formed [OF t, of u h] assms by auto
qed

lemma create_category_error_kind:
  assumes "create_category u a h = Inl e"
  shows "e = AttributeError \<or> e = TypeError"
  using assms
  by (auto simp: create_category_def bind_result_def Let_def subcategory_of_def
        split: if_splits sum.splits elim!: py_get.elims py_keys.elims py_strip.elims
          py_clean_game_name.elims)

lemma starts_with_iff: "starts_with k s \<longleftrightarrow> (\<exists>b. s = k @ b)"
  by (induction k s rule: starts_with.induct) auto

lemma starts_with_append: "starts_with k (k @ b)"
  by (simp add: starts_with_iff)

lemma str_contains_iff: "str_contains k s \<longleftrightarrow> (\<exists>a b. s = a @ k @ b)"
proof (induction s)
  case Nil
  then show ?case by auto
next
  case (Cons c cs)
  show ?case
  proof
    assume "str_contains k (c # cs)"
    then consider "starts_with k (c # cs)" | "str_contains k cs" by auto
    then show "\<exists>a b. c # cs = a @ k @ b"
    proof cases
      case 1
      then obtain b where "c # cs = k @ b" by (auto simp: starts_with_iff)
      then have "c # cs = [] @ k @ b" by simp
      then show ?thesis by blast
    next
      case 2
      then obtain a b where "cs = a @ k @ b" using Cons.IH by blast
      then have "c # cs = (c # a) @ k @ b" by simp
      then show ?thesis by blast
    qed
  next
    assume "\<exists>a b. c # cs = a @ k @ b"
    then obtain a b where ab: "c # cs = a @ k @ b" by blast
    show "str_contains k (c # cs)"
    proof (cases a)
      case Nil
      with ab have "starts_with k (c # cs)" by (auto simp: starts_with_iff)
      then show ?thesis by simp
    next
      case (Cons x a')
      with ab have "cs = a' @ k @ b" by simp
      then have "str_contains k cs" using Cons.IH by blast
      then show ?thesis by simp
    qed
  qed
qed

lemma str_contains_longer: "str_contains (k @ x) p \<Longrightarrow> str_contains k p"
proof -
  assume "str_contains (k @ x) p"
  then obtain a b where "p = a @ (k @ x) @ b" by (auto simp: str_contains_iff)
  then have "p = a @ k @ (x @ b)" by simp
  then show ?thesis unfolding str_contains_iff by blast
qed

lemma create_category_present:
  assumes "truthy a" and "create_category u a h = Inr r"
  shows "\<exists>c. r = Some c \<and> c \<noteq> [] \<and> starts_with ''Games/'' c"
proof -
  have w: "well_formed a"
    using create_category_ill_formed [OF assms(1), of u h] assms(2) by auto
  show ?thesis
    using create_category_well_formed [OF assms(1) w, of u h] assms(2)
    by (simp add: compose_category_def)
qed

lemma remove_illegal_clean: "set (remove_illegal s) \<inter> set illegal_chars = {}"
  by (auto simp: remove_illegal_def)

lemma allowed_not_illegal: "allowed_char c \<Longrightarrow> c \<notin> set illegal_chars"
  by (auto simp: allowed_char_def is_word_def is_alnum_def is_space_def kept_punctuation_def
        illegal_chars_def Let_def)


lemma clean_game_name_allowed: "c \<in> set (clean_game_name u n) \<Longrightarrow> allowed_char c"
  by (simp add: clean_game_name_def keep_allowed_def Let_def)

lemma title_clean:
  "set (clean_game_name u n) \<inter> set illegal_chars = {}"
  using clean_game_name_allowed allowed_not_illegal by blast






lemma clean_unknown_game: "clean_game_name u ''Unknown Game'' = ''Unknown Game''"
  by code_simp

lemma find_manufacturer_range:
  "find_manufacturer tbl p = ''Unknown'' \<or> find_manufacturer tbl p \<in> snd ` set tbl"
  by (induction tbl p rule: find_manufacturer.induct) auto

lemma manufacturer_clean: "set (find_manufacturer manufacturer_map p) \<inter> set illegal_chars = {}"
  using find_manufacturer_range [of manufacturer_map p]
  by (auto simp: manufacturer_map_def illegal_chars_def)

lemma find_manufacturer_first:
  "i < length tbl \<Longrightarrow> str_contains (fst (tbl ! i)) p
   \<Longrightarrow> (\<forall>j<i. \<not> str_contains (fst (tbl ! j)) p)
   \<Longrightarrow> find_manufacturer tbl p = snd (tbl ! i)"
proof (induction tbl p arbitrary: i rule: find_manufacturer.induct)
  case (1 p)
  then show ?case by simp
next
  case (2 k m items p)
  show ?case
  proof (cases i)
    case 0
    with 2 show ?thesis by simp
  next
    case (Suc i')
    with 2(3,4) have nk: "\<not> str_contains k p" by auto
    have "find_manufacturer items p = snd (items ! i')"
    proof (rule 2(1) [OF nk])
      show "i' < length items" using 2(2) Suc by simp
      show "str_contains (fst (items ! i')) p" using 2(3) Suc by simp
      show "\<forall>j<i'. \<not> str_contains (fst (items ! j)) p"
        using 2(4) Suc by auto
    qed
    with nk Suc show ?thesis by simp
  qed
qed

lemma find_manufacturer_none:
  "(\<forall>k \<in> fst ` set tbl. \<not> str_contains k p) \<Longrightarrow> find_manufacturer tbl p = ''Unknown''"
  by (induction tbl p rule: find_manufacturer.induct) auto

lemma microsoft:
  "str_contains ''windows'' p \<or> str_contains ''pc'' p \<or> str_contains ''xbox'' p
   \<Longrightarrow> find_manufacturer manufacturer_map p = ''Microsoft''"
  by (auto simp: manufacturer_map_def)

lemma xbox_keys:
  assumes "\<not> str_contains ''xbox'' p"
  shows "\<not> str_contains ''xbox 360'' p" and "\<not> str_contains ''xbox one'' p"
    and "\<not> str_contains ''xbox series x'' p"
  using assms str_contains_longer [of "''xbox''" "'' 360''" p]
    str_contains_longer [of "''xbox''" "'' one''" p]
    str_contains_longer [of "''xbox''" "'' series x''" p]
  by auto

lemma sony:
  "str_contains ''playstation'' p \<Longrightarrow> \<not> str_contains ''windows'' p \<Longrightarrow> \<not> str_contains ''pc'' p
   \<Longrightarrow> \<not> str_contains ''xbox'' p
   \<Longrightarrow> find_manufacturer manufacturer_map p = ''Sony''"
  by (simp add: manufacturer_map_def xbox_keys)

lemma playstation_keys:
  assumes "\<not> str_contains ''playstation'' p"
  shows "\<not> str_contains ''playstation 2'' p" and "\<not> str_contains ''playstation 3'' p"
    and "\<not> str_contains ''playstation 4'' p" and "\<not> str_contains ''playstation 5'' p"
    and "\<not> str_contains ''playstation portable'' p" and "\<not> str_contains ''playstation vita'' p"
  using assms str_contains_longer [of "''playstation''" "'' 2''" p]
    str_contains_longer [of "''playstation''" "'' 3''" p]
    str_contains_longer [of "''playstation''" "'' 4''" p]
    str_contains_longer [of "''playstation''" "'' 5''" p]
    str_contains_longer [of "''playstation''" "'' portable''" p]
    str_contains_longer [of "''playstation''" "'' vita''" p]
  by auto

lemma nintendo:
  "str_contains ''switch'' p \<or> str_contains ''wii'' p \<or> str_contains ''gamecube'' p
   \<Longrightarrow> \<not> str_contains ''windows'' p \<Longrightarrow> \<not> str_contains ''pc'' p
   \<Longrightarrow> \<not> str_contains ''xbox'' p \<Longrightarrow> \<not> str_contains ''playstation'' p
   \<Longrightarrow> find_manufacturer manufacturer_map p = ''Nintendo''"
  by (auto simp: manufacturer_map_def xbox_keys playstation_keys)

lemma no_group_section:
  assumes "''group'' \<notin> fst ` set (items_of a)"
  shows "platform_of a = []" and "manufacturer_of a = ''Unknown''"
    and "title_of u a = ''Unknown Game''" and "year_of a = ''Unknown''"
proof -
  from assms have "map_of (items_of a) ''group'' = None"
    by (simp add: map_of_eq_None_iff)
  then have g: "group_of a = JObj []" by (simp add: group_of_def dict_get_def)
  show p: "platform_of a = []"
    by (simp add: platform_of_def platform_field_def g dict_get_def strip_def)
  show "manufacturer_of a = ''Unknown''"
    unfolding manufacturer_of_def p by code_simp
  show "title_of u a = ''Unknown Game''"
    by (simp add: title_of_def name_field_def g dict_get_def clean_unknown_game)
  show "year_of a = ''Unknown''"
    by (simp add: year_of_def year_field_def g dict_get_def)
qed

lemma fixed_parts:
  "set ''Games/'' \<inter> (set illegal_chars - {CHR ''/''}) = {}"
  "set ''/'' \<inter> (set illegal_chars - {CHR ''/''}) = {}"
  "set '' ('' \<inter> (set illegal_chars - {CHR ''/''}) = {}"
  "set '')'' \<inter> (set illegal_chars - {CHR ''/''}) = {}"
  by (simp_all add: illegal_chars_def)

lemma set_compose_category:
  "set (compose_category m p t y s) =
     set ''Games/'' \<union> set m \<union> set ''/'' \<union> set p \<union> set t \<union> set '' ('' \<union> set y
       \<union> set '')'' \<union> set s"
  unfolding compose_category_def set_append by blast

lemma union_of_clean_parts:
  assumes "G \<inter> B = {}" and "M \<inter> B = {}" and "S \<inter> B = {}" and "T \<inter> B = {}"
    and "L \<inter> B = {}" and "R \<inter> B = {}" and "U \<inter> B = {}"
  shows "(G \<union> M \<union> S \<union> P \<union> T \<union> L \<union> Y \<union> R \<union> U) \<inter> B = {}
           \<longleftrightarrow> P \<inter> B = {} \<and> Y \<inter> B = {}"
  using assms by blast

lemma disjoint_Diff: "A \<inter> I = {} \<Longrightarrow> A \<inter> (I - X) = {}"
  by blast

lemma compose_category_characters:
  assumes "set m \<inter> set illegal_chars = {}" and "set t \<inter> set illegal_chars = {}"
    and "set s \<inter> (set illegal_chars - {CHR ''/''}) = {}"
  shows "set (compose_category m p t y s) \<inter> (set illegal_chars - {CHR ''/''}) = {}
           \<longleftrightarrow> set p \<inter> (set illegal_chars - {CHR ''/''}) = {}
             \<and> set y \<inter> (set illegal_chars - {CHR ''/''}) = {}"
  unfolding set_compose_category
  by (rule union_of_clean_parts [OF fixed_parts(1) disjoint_Diff [OF assms(1)] fixed_parts(2)
        disjoint_Diff [OF assms(2)] fixed_parts(3) fixed_parts(4) assms(3)])

lemma derived_subcategory_clean:
  "set (drop 1 (derived_subcategory a)) \<inter> set illegal_chars = {}"
  "set (derived_subcategory a) \<inter> (set illegal_chars - {CHR ''/''}) = {}"
proof -
  show "set (drop 1 (derived_subcategory a)) \<inter> set illegal_chars = {}"
    using remove_illegal_clean by (simp add: derived_subcategory_def)
  have r: "set (remove_illegal (dox_type_of a)) \<inter> (set illegal_chars - {CHR ''/''}) = {}"
    by (rule disjoint_Diff [OF remove_illegal_clean])
  show "set (derived_subcategory a) \<inter> (set illegal_chars - {CHR ''/''}) = {}"
  proof (cases "truthy (release_of a)")
    case True
    then have "set (derived_subcategory a) = insert CHR ''/'' (set (remove_illegal (dox_type_of a)))"
      by (simp add: derived_subcategory_def)
    with r show ?thesis by blast
  next
    case False
    then show ?thesis by (simp add: derived_subcategory_def)
  qed
qed

section \<open>Facts about the runs of the script\<close>

lemmas prog_defs = io_bind_def ret_def raise_def lift_def log_def sleep_def send_def try_except_def

lemma io_bindE:
  assumes "io_bind m f s = (r, evs, s')"
  obtains (raised) e where "m s = (Inl e, evs, s')" and "r = Inl e"
  | (returned) x ev1 s1 ev2 where "m s = (Inr x, ev1, s1)" and "f x s1 = (r, ev2, s')"
      and "evs = ev1 @ ev2"
  using assms by (auto simp: io_bind_def split: prod.splits sum.splits)

lemma try_exceptE:
  assumes "try_except m h s = (r, evs, s')"
  obtains (caught) e ev1 s1 ev2 where "m s = (Inl e, ev1, s1)" and "h e s1 = (r, ev2, s')"
      and "evs = ev1 @ ev2"
  | (passed) x where "m s = (Inr x, evs, s')" and "r = Inr x"
  using assms by (auto simp: try_except_def split: prod.splits sum.splits)

lemma log_run: "log l m s = (r, evs, s') \<longleftrightarrow> r = Inr () \<and> evs = [Log l m] \<and> s' = s"
  by (auto simp: log_def)

lemma ret_run: "ret x s = (r, evs, s') \<longleftrightarrow> r = Inr x \<and> evs = [] \<and> s' = s"
  by (auto simp: ret_def)

lemma raise_run: "raise e s = (r, evs, s') \<longleftrightarrow> r = Inl e \<and> evs = [] \<and> s' = s"
  by (auto simp: raise_def)

lemma lift_run: "lift x s = (r, evs, s') \<longleftrightarrow> r = x \<and> evs = [] \<and> s' = s"
  by (auto simp: lift_def)

lemma sleep_run: "sleep n s = (r, evs, s') \<longleftrightarrow> r = Inr () \<and> evs = [Sleep n] \<and> s' = s"
  by (auto simp: sleep_def)

lemma send_run:
  "send srv rq s = (r, evs, s') \<longleftrightarrow>
     (srv rq s = (No_Reply, s') \<and> r = Inl RequestException \<and> evs = [Sent rq No_Reply])
     \<or> (\<exists>x. srv rq s = (Reply x, s') \<and> r = Inr x \<and> evs = [Sent rq (Reply x)])"
  by (auto simp: send_def split: prod.splits reply.splits)

lemmas run_simps = log_run ret_run raise_run lift_run sleep_run send_run

lemma acknowledged_basic:
  "acknowledged [] = 0"
  "acknowledged (evs @ evs') = acknowledged evs + acknowledged evs'"
  "acknowledged (Log l m # evs) = acknowledged evs"
  "acknowledged (Sleep n # evs) = acknowledged evs"
  "acknowledged (Sent (Set_Category h c) (Reply x) # evs)
     = (if status_code x = 200 then 1 else 0) + acknowledged evs"
  by (simp_all add: acknowledged_def)

lemma acknowledged_no_reply: "acknowledged (Sent rq No_Reply # evs) = acknowledged evs"
  by (cases rq) (simp_all add: acknowledged_def)

lemma acknowledged_other:
  "acknowledged (Sent (Add_Tags h t) rp # evs) = acknowledged evs"
  "acknowledged (Sent (Create_Category c p) rp # evs) = acknowledged evs"
  "acknowledged (Sent (Torrent_Trackers h) rp # evs) = acknowledged evs"
  "acknowledged (Sent (GGn_Torrent k g) rp # evs) = acknowledged evs"
  by (cases rp; simp add: acknowledged_def)+

lemmas acknowledged_simps = acknowledged_basic acknowledged_no_reply acknowledged_other

lemma tagging_failures_basic:
  "tagging_failures [] = 0"
  "tagging_failures (evs @ evs') = tagging_failures evs + tagging_failures evs'"
  "tagging_failures (Log l m # evs) = tagging_failures evs"
  "tagging_failures (Sleep n # evs) = tagging_failures evs"
  "tagging_failures (Sent (Add_Tags h t) No_Reply # evs) = 1 + tagging_failures evs"
  by (simp_all add: tagging_failures_def)

lemma tagging_failures_reply: "tagging_failures (Sent rq (Reply x) # evs) = tagging_failures evs"
  by (cases rq) (simp_all add: tagging_failures_def)

lemma tagging_failures_other:
  "tagging_failures (Sent (Set_Category h c) rp # evs) = tagging_failures evs"
  "tagging_failures (Sent (Create_Category c p) rp # evs) = tagging_failures evs"
  "tagging_failures (Sent (Torrent_Trackers h) rp # evs) = tagging_failures evs"
  "tagging_failures (Sent (GGn_Torrent k g) rp # evs) = tagging_failures evs"
  by (cases rp; simp add: tagging_failures_def)+

lemmas tagging_failures_simps = tagging_failures_basic tagging_failures_reply tagging_failures_other

lemmas count_simps = acknowledged_simps tagging_failures_simps

lemma set_torrent_category_assignments:
  "length (filter is_assignment (fst (snd (set_torrent_category srv qb h c s)))) \<le> 2"
  by (auto simp: set_torrent_category_def qb_create_category_def prog_defs
        split: prod.splits sum.splits reply.splits)

lemma category_service_accepts:
  assumes "logged_in qb"
  shows "fst (set_torrent_category category_service qb h c categories) = Inr True"
  using assms
  by (simp add: set_torrent_category_def qb_create_category_def prog_defs category_service_def
        status_only_def)

lemma set_torrent_category_counts:
  assumes "set_torrent_category srv qb h c s = (r, evs, s')"
  shows "tagging_failures evs = 0" and "acknowledged evs = (if r = Inr True then 1 else 0)"
  using assms
  by (auto simp: set_torrent_category_def qb_create_category_def run_simps count_simps
        elim!: io_bindE split: if_splits)

lemma add_torrent_tags_counts:
  assumes "add_torrent_tags srv qb h t s = (r, evs, s')"
  shows "acknowledged evs = 0"
    and "tagging_failures evs = (case r of Inl e \<Rightarrow> 1 | Inr b \<Rightarrow> 0)"
  using assms
  by (auto simp: add_torrent_tags_def run_simps count_simps elim!: io_bindE split: if_splits)

lemma set_torrent_category_countsD:
  "set_torrent_category srv qb h c s = (r, evs, s')
   \<Longrightarrow> tagging_failures evs = 0 \<and> acknowledged evs = (if r = Inr True then 1 else 0)"
  by (simp add: set_torrent_category_counts)

lemma add_torrent_tags_countsD:
  "add_torrent_tags srv qb h t s = (r, evs, s')
   \<Longrightarrow> acknowledged evs = 0 \<and> tagging_failures evs = (case r of Inl e \<Rightarrow> 1 | Inr b \<Rightarrow> 0)"
  by (simp add: add_torrent_tags_counts)

lemma add_torrent_tags_no_assignment:
  assumes "add_torrent_tags srv qb h t s = (r, evs, s')"
  shows "filter is_assignment evs = []"
  using assms
  by (auto simp: add_torrent_tags_def run_simps elim!: io_bindE split: if_splits)

lemma apply_category_tagged:
  assumes "set_torrent_category srv qb h c s1 = (Inr True, e1, s2)"
    and "add_torrent_tags srv qb h ''GGn-Sorted'' s2 = (Inr tagged, e2, s3)"
  shows "apply_category srv qb h name c n s1
           = (Inr (n + 1),
              [Log INFO (Created c)] @ e1 @ [Log INFO (Category_Updated c)] @ e2
                @ [if tagged then Log DEBUG (Tag_Added name) else Log WARNING (Tag_Failed name)],
              s3)"
  using assms by (simp add: apply_category_def io_bind_def log_def ret_def)

lemma apply_category_counts:
  assumes "apply_category srv qb h name c n s = (r, evs, s')"
  shows "case r of Inr n' \<Rightarrow> n' + tagging_failures evs = n + acknowledged evs
         | Inl e \<Rightarrow> tagging_failures evs = acknowledged evs"
  using assms
  by (auto simp: apply_category_def run_simps count_simps
        elim!: io_bindE split: if_splits sum.splits
        dest!: set_torrent_category_countsD add_torrent_tags_countsD)

lemma fetch_json_counts:
  assumes "fetch_json srv qb (Torrent_Trackers h) s = (r, evs, s')"
  shows "acknowledged evs = 0" and "tagging_failures evs = 0"
  using assms
  by (auto simp: fetch_json_def run_simps count_simps elim!: io_bindE split: if_splits)

lemma fetch_json_countsD:
  "fetch_json srv qb (Torrent_Trackers h) s = (r, evs, s')
   \<Longrightarrow> acknowledged evs = 0 \<and> tagging_failures evs = 0"
  by (simp add: fetch_json_counts)

lemma missing_category_counts:
  assumes "missing_category a name s = (r, evs, s')"
  shows "acknowledged evs = 0" and "tagging_failures evs = 0"
  using assms
  by (auto simp: missing_category_def run_simps count_simps elim!: io_bindE split: if_splits)

lemma missing_category_countsD:
  "missing_category a name s = (r, evs, s')
   \<Longrightarrow> acknowledged evs = 0 \<and> tagging_failures evs = 0"
  by (simp add: missing_category_counts)

lemma report_exception_counts:
  assumes "report_exception name a n e s = (r, evs, s')"
  shows "acknowledged evs = 0" and "tagging_failures evs = 0"
    and "r = Inr n' \<Longrightarrow> n' = n"
  using assms
  by (auto simp: report_exception_def run_simps count_simps elim!: io_bindE split: if_splits)

lemma report_exception_countsD:
  "report_exception name a n e s = (r, evs, s')
   \<Longrightarrow> acknowledged evs = 0 \<and> tagging_failures evs = 0 \<and> (\<forall>n'. r = Inr n' \<longrightarrow> n' = n)"
  by (simp add: report_exception_counts)

lemma report_exception_dict:
  assumes "is_dict a"
  shows "\<exists>evs. report_exception name a n e s = (Inr n, evs, s)"
  using assms by (cases a) (simp_all add: report_exception_def prog_defs)

lemma ggn_get_torrent_counts:
  assumes "ggn_get_torrent srv k h s = (r, evs, s')"
  shows "acknowledged evs = 0" and "tagging_failures evs = 0"
  using assms
  by (auto simp: ggn_get_torrent_def run_simps count_simps
        elim!: io_bindE try_exceptE split: if_splits)

lemma ggn_get_torrent_countsD:
  "ggn_get_torrent srv k h s = (r, evs, s')
   \<Longrightarrow> acknowledged evs = 0 \<and> tagging_failures evs = 0"
  by (simp add: ggn_get_torrent_counts)

lemma ggn_get_torrent_never_raises:
  "\<exists>payload evs s'. ggn_get_torrent srv k h s = (Inr payload, evs, s')"
  by (auto simp: ggn_get_torrent_def prog_defs
        split: prod.splits sum.splits reply.splits if_splits)

lemma categorize_present:
  assumes "truthy a"
  shows "categorize srv u qb h name a n =
           try_except
             (io_bind (lift (create_category u a h)) (\<lambda>category.
                apply_category srv qb h name (case category of None \<Rightarrow> [] | Some c \<Rightarrow> c) n))
             (report_exception name a n)"
proof
  fix s
  show "categorize srv u qb h name a n s =
           try_except
             (io_bind (lift (create_category u a h)) (\<lambda>category.
                apply_category srv qb h name (case category of None \<Rightarrow> [] | Some c \<Rightarrow> c) n))
             (report_exception name a n) s"
  proof (cases "create_category u a h")
    case (Inl e)
    then show ?thesis
      by (simp add: categorize_def try_except_def io_bind_def lift_def)
  next
    case (Inr r)
    from create_category_present [OF assms Inr] obtain c where "r = Some c" "c \<noteq> []"
      by blast
    with Inr show ?thesis
      by (simp add: categorize_def try_except_def io_bind_def lift_def)
  qed
qed

lemma categorize_body_counts:
  assumes "io_bind (lift (create_category u a h)) (\<lambda>category.
          case category of
            None \<Rightarrow> io_bind (missing_category a name) (\<lambda>_. ret n)
          | Some c \<Rightarrow>
              if c = [] then io_bind (missing_category a name) (\<lambda>_. ret n)
              else apply_category srv qb h name c n) s = (r, evs, s')"
  shows "case r of Inr n' \<Rightarrow> n' + tagging_failures evs = n + acknowledged evs
         | Inl e \<Rightarrow> tagging_failures evs = acknowledged evs"
proof (cases "create_category u a h")
  case (Inl e)
  with assms show ?thesis by (auto simp: io_bind_def lift_def count_simps)
next
  case (Inr category)
  have missing: "io_bind (missing_category a name) (\<lambda>_. ret n) s = (r, evs, s')
      \<Longrightarrow> ?thesis"
    by (auto simp: run_simps count_simps elim!: io_bindE dest!: missing_category_countsD)
  show ?thesis
  proof (cases category)
    case None
    with Inr assms have "io_bind (missing_category a name) (\<lambda>_. ret n) s = (r, evs, s')"
      by (simp add: io_bind_def lift_def)
    then show ?thesis by (rule missing)
  next
    case (Some c)
    show ?thesis
    proof (cases "c = []")
      case True
      with Some Inr assms have "io_bind (missing_category a name) (\<lambda>_. ret n) s = (r, evs, s')"
        by (simp add: io_bind_def lift_def)
      then show ?thesis by (rule missing)
    next
      case False
      with Some Inr assms have "apply_category srv qb h name c n s = (r, evs, s')"
        by (simp add: io_bind_def lift_def)
      then show ?thesis by (rule apply_category_counts)
    qed
  qed
qed

lemma categorize_counts:
  assumes "categorize srv u qb h name a n s = (Inr n', evs, s')"
  shows "n' + tagging_failures evs = n + acknowledged evs"
  using assms unfolding categorize_def
proof (cases rule: try_exceptE)
  case (caught e ev1 s1 ev2)
  from categorize_body_counts [OF caught(1)] have "tagging_failures ev1 = acknowledged ev1"
    by simp
  moreover from report_exception_countsD [OF caught(2)]
  have "acknowledged ev2 = 0" "tagging_failures ev2 = 0" "n' = n" by simp_all
  ultimately show ?thesis using caught(3) by (simp add: count_simps)
next
  case (passed x)
  from categorize_body_counts [OF passed(1)] passed(2) show ?thesis by simp
qed

lemma categorize_never_raises:
  assumes "is_dict a"
  shows "\<exists>n' evs s'. categorize srv u qb h name a n s = (Inr n', evs, s')"
proof -
  define body where "body = io_bind (lift (create_category u a h)) (\<lambda>category.
          case category of
            None \<Rightarrow> io_bind (missing_category a name) (\<lambda>_. ret n)
          | Some c \<Rightarrow>
              if c = [] then io_bind (missing_category a name) (\<lambda>_. ret n)
              else apply_category srv qb h name c n)"
  have c: "categorize srv u qb h name a n = try_except body (report_exception name a n)"
    by (simp add: categorize_def body_def)
  obtain r ev1 s1 where m: "body s = (r, ev1, s1)"
    by (cases "body s") auto
  show ?thesis
  proof (cases r)
    case (Inl e)
    from report_exception_dict [OF assms, of name n e s1] obtain ev2
      where "report_exception name a n e s1 = (Inr n, ev2, s1)" by blast
    with m Inl show ?thesis by (simp add: c try_except_def)
  next
    case (Inr x)
    with m show ?thesis by (simp add: c try_except_def)
  qed
qed

lemma process_torrent_counts:
  assumes "process_torrent srv u qb k t n s = (Inr n', evs, s')"
  shows "n' + tagging_failures evs = n + acknowledged evs"
  using assms
  by (auto simp: process_torrent_def get_torrent_trackers_def run_simps count_simps
        elim!: io_bindE split: if_splits
        dest!: fetch_json_countsD ggn_get_torrent_countsD categorize_counts)

lemma process_torrents_counts:
  assumes "process_torrents srv u qb k ts n s = (Inr n', evs, s')"
  shows "n' + tagging_failures evs = n + acknowledged evs"
  using assms
proof (induction ts arbitrary: n s evs)
  case Nil
  then show ?case by (simp add: run_simps count_simps)
next
  case (Cons t ts)
  from Cons.prems obtain n1 ev1 s1 ev2
    where one: "process_torrent srv u qb k t n s = (Inr n1, ev1, s1)"
      and rest: "process_torrents srv u qb k ts n1 s1 = (Inr n', ev2, s')"
      and evs: "evs = ev1 @ ev2"
    by (auto elim!: io_bindE)
  from process_torrent_counts [OF one] Cons.IH [OF rest] evs
  show ?case by (simp add: count_simps)
qed

lemma filter_torrents_strings:
  assumes "\<forall>t \<in> set items. is_dict t \<and> is_str (dict_get (items_of t) ''tags'' (JStr []))"
  shows "filter_torrents acc items =
           Inr (acc @ filter (\<lambda>t. \<not> str_contains ''GGn-Sorted''
                                      (str_of (dict_get (items_of t) ''tags'' (JStr [])))) items)"
  using assms
proof (induction items arbitrary: acc)
  case Nil
  then show ?case by simp
next
  case (Cons t items)
  from Cons.prems obtain kvs tags where t: "t = JObj kvs"
    and tags: "dict_get kvs ''tags'' (JStr []) = JStr tags"
    by (cases t; cases "dict_get (items_of t) ''tags'' (JStr [])") auto
  from Cons.prems have rest:
    "\<forall>t \<in> set items. is_dict t \<and> is_str (dict_get (items_of t) ''tags'' (JStr []))"
    by simp
  show ?case
    using Cons.IH [OF rest] t tags by (simp add: bind_result_def)
qed

lemma split_on_nonempty: "split_on sep s \<noteq> []"
  by (induction s) (auto split: list.splits)

lemma split_on_first: "\<exists>b. s = hd (split_on sep s) @ b"
proof (induction s)
  case Nil
  then show ?case by simp
next
  case (Cons c cs)
  then obtain b where b: "cs = hd (split_on sep cs) @ b" by blast
  show ?case
  proof (cases "c = sep")
    case True
    then show ?thesis by simp
  next
    case False
    obtain w ws where w: "split_on sep cs = w # ws"
      using split_on_nonempty [of sep cs] by (cases "split_on sep cs") auto
    with b have "c # cs = (c # w) @ b" by simp
    with False w show ?thesis by auto
  qed
qed

lemma split_on_parts: "w \<in> set (split_on sep s) \<Longrightarrow> \<exists>a b. s = a @ w @ b"
proof (induction s arbitrary: w)
  case Nil
  then show ?case by simp
next
  case (Cons c cs)
  show ?case
  proof (cases "c = sep")
    case True
    with Cons.prems consider "w = []" | "w \<in> set (split_on sep cs)" by auto
    then show ?thesis
    proof cases
      case 1
      then have "c # cs = [] @ w @ (c # cs)" by simp
      then show ?thesis by blast
    next
      case 2
      from Cons.IH [OF 2] obtain a b where "cs = a @ w @ b" by blast
      then have "c # cs = (c # a) @ w @ b" by simp
      then show ?thesis by blast
    qed
  next
    case False
    obtain w0 ws where w0: "split_on sep cs = w0 # ws"
      using split_on_nonempty [of sep cs] by (cases "split_on sep cs") auto
    with False Cons.prems consider "w = c # w0" | "w \<in> set ws" by auto
    then show ?thesis
    proof cases
      case 1
      from split_on_first [of cs sep] w0 obtain b where "cs = w0 @ b" by auto
      with 1 have "c # cs = [] @ w @ b" by simp
      then show ?thesis by blast
    next
      case 2
      with w0 have "w \<in> set (split_on sep cs)" by simp
      from Cons.IH [OF this] obtain a b where "cs = a @ w @ b" by blast
      then have "c # cs = (c # a) @ w @ b" by simp
      then show ?thesis by blast
    qed
  qed
qed

lemma strip_part: "\<exists>a b. s = a @ strip s @ b"
proof -
  define t where "t = dropWhile is_space s"
  have s: "s = takeWhile is_space s @ t" by (simp add: t_def)
  have "rev (dropWhile is_space (rev t)) @ rev (takeWhile is_space (rev t))
          = rev (takeWhile is_space (rev t) @ dropWhile is_space (rev t))"
    by (simp only: rev_append)
  also have "\<dots> = rev (rev t)" by (simp only: takeWhile_dropWhile_id)
  also have "\<dots> = t" by simp
  finally have t: "t = rev (dropWhile is_space (rev t)) @ rev (takeWhile is_space (rev t))"
    by (rule sym)
  have "strip s = rev (dropWhile is_space (rev t))" by (simp add: strip_def t_def)
  with s t have "s = takeWhile is_space s @ strip s @ rev (takeWhile is_space (rev t))"
    by simp
  then show ?thesis by blast
qed

lemma tag_occurs_in_tags:
  assumes "tag \<in> set (tag_set torrent)"
  shows "str_contains tag (str_of (dict_get (items_of torrent) ''tags'' (JStr [])))"
proof -
  define tags where "tags = str_of (dict_get (items_of torrent) ''tags'' (JStr []))"
  from assms obtain w where w: "w \<in> set (split_on CHR '','' tags)" and tag: "tag = strip w"
    by (auto simp: tag_set_def tags_def)
  from split_on_parts [OF w] obtain a b where ab: "tags = a @ w @ b" by blast
  from strip_part [of w] obtain c d where "w = c @ tag @ d" using tag by auto
  with ab have "tags = (a @ c) @ tag @ (d @ b)" by simp
  then show ?thesis unfolding str_contains_iff tags_def [symmetric] by blast
qed

lemma marked_torrents_are_excluded:
  assumes "\<forall>t \<in> set items. is_dict t \<and> is_str (dict_get (items_of t) ''tags'' (JStr []))"
  shows "\<exists>listed. filter_torrents [] items = Inr listed
           \<and> set listed \<subseteq> set (claimed_unprocessed items)
           \<and> (\<forall>t \<in> set items. ''GGn-Sorted'' \<in> set (tag_set t) \<longrightarrow> t \<notin> set listed)"
proof -
  have l: "filter_torrents [] items =
           Inr (filter (\<lambda>t. \<not> str_contains ''GGn-Sorted''
                                      (str_of (dict_get (items_of t) ''tags'' (JStr [])))) items)"
    using filter_torrents_strings [OF assms, of "[]"] by simp
  show ?thesis
    unfolding l using tag_occurs_in_tags by (auto simp: claimed_unprocessed_def)
qed

lemma get_torrents_events:
  assumes "get_torrents srv qb s = (r, evs, s')"
  shows "filter is_tracker_request evs = []" and "filter is_report evs = []"
  using assms
  by (auto simp: get_torrents_def prog_defs split: if_splits prod.splits sum.splits reply.splits)

lemma get_torrents_counts:
  assumes "get_torrents srv qb s = (r, evs, s')"
  shows "acknowledged evs = 0" and "tagging_failures evs = 0"
  using assms
  by (auto simp: get_torrents_def run_simps acknowledged_def tagging_failures_def
        elim!: io_bindE split: if_splits)

lemma all_sorted_listing:
  assumes "logged_in qb" and "srv Torrents_Info s = (Reply r, s')"
    and "status_code r = 200" and "body_json r = Some (JArr items)"
    and "\<forall>t \<in> set items. is_dict t \<and> is_str (dict_get (items_of t) ''tags'' (JStr []))
           \<and> str_contains ''GGn-Sorted'' (str_of (dict_get (items_of t) ''tags'' (JStr [])))"
  shows "get_torrents srv qb s =
           (Inr (Some []), [Sent Torrents_Info (Reply r), Log INFO (Retrieved 0 (length items))], s')"
proof -
  have "filter_torrents [] items = Inr []"
    using filter_torrents_strings [of items "[]"] assms(5) by (simp add: filter_empty_conv)
  then show ?thesis
    using assms(1-4) by (simp add: get_torrents_def prog_defs)
qed

lemma sync_torrents_report:
  assumes "sync_torrents srv u qb k s = (Inr (), evs, s')" and "list_ex is_report evs"
  shows "\<exists>n. last evs = Log INFO (Updated_Count n)
             \<and> n + tagging_failures evs = acknowledged evs"
proof -
  from assms(1) obtain torrents ev1 s1 ev2
    where g: "get_torrents srv qb s = (Inr torrents, ev1, s1)"
      and rest: "(case torrents of
                   None \<Rightarrow> log ERROR Retrieve_Failed
                 | Some ts \<Rightarrow>
                     if ts = [] then log ERROR Retrieve_Failed
                     else io_bind (process_torrents srv u qb k ts 0)
                            (\<lambda>updated_count. log INFO (Updated_Count updated_count))) s1
                 = (Inr (), ev2, s')"
      and evs: "evs = ev1 @ ev2"
    unfolding sync_torrents_def by (auto elim!: io_bindE)
  have no_report: "\<not> list_ex is_report ev1"
    using get_torrents_events(2) [OF g] by (simp add: list_ex_iff filter_empty_conv)
  show ?thesis
  proof (cases "torrents = None \<or> torrents = Some []")
    case True
    with rest have "ev2 = [Log ERROR Retrieve_Failed]" by (auto simp: run_simps)
    with assms(2) evs no_report show ?thesis by simp
  next
    case False
    then obtain ts where ts: "torrents = Some ts" "ts \<noteq> []" by auto
    with rest obtain n ev3 s3
      where p: "process_torrents srv u qb k ts 0 s1 = (Inr n, ev3, s3)"
        and ev2: "ev2 = ev3 @ [Log INFO (Updated_Count n)]"
      by (auto simp: run_simps elim!: io_bindE)
    from process_torrents_counts [OF p] get_torrents_counts [OF g] evs ev2
    show ?thesis by (simp add: count_simps)
  qed
qed

lemma tag_timeout_run_events:
  "tag_timeout_run =
     (Inr (),
      [Sent Torrents_Info (ok_json (JArr [torrent_a])), Log INFO (Retrieved 1 1),
       Sent (Torrent_Trackers (JStr ''aaa111'')) (ok_json gazelle_trackers),
       Log INFO (Processing (JStr ''Foo'')), Sleep 1, Sleep 2, Log INFO (Querying ''AAA111''),
       Sent (GGn_Torrent ''key'' ''AAA111'') (ggn_success foo_metadata),
       Log INFO (API_Response 200 0), Log INFO (Data_Retrieved ''AAA111''),
       Log INFO (Created ''Games/Microsoft/Windows/Foo (2019)''),
       Sent (Set_Category (JStr ''aaa111'') ''Games/Microsoft/Windows/Foo (2019)'') (status_only 200),
       Log INFO (Category_Updated ''Games/Microsoft/Windows/Foo (2019)''),
       Sent (Add_Tags (JStr ''aaa111'') ''GGn-Sorted'') No_Reply,
       Log ERROR (Exception_In_Category (JStr ''Foo'') RequestException),
       Log DEBUG (API_Data_Keys (Some [''group''])),
       Log INFO (Updated_Count 0)],
      [])"
  by code_simp

lemma tag_refused_run_events:
  "tag_refused_run =
     (Inr (),
      [Sent Torrents_Info (ok_json (JArr [torrent_a])), Log INFO (Retrieved 1 1),
       Sent (Torrent_Trackers (JStr ''aaa111'')) (ok_json gazelle_trackers),
       Log INFO (Processing (JStr ''Foo'')), Sleep 1, Sleep 2, Log INFO (Querying ''AAA111''),
       Sent (GGn_Torrent ''key'' ''AAA111'') (ggn_success foo_metadata),
       Log INFO (API_Response 200 0), Log INFO (Data_Retrieved ''AAA111''),
       Log INFO (Created ''Games/Microsoft/Windows/Foo (2019)''),
       Sent (Set_Category (JStr ''aaa111'') ''Games/Microsoft/Windows/Foo (2019)'') (status_only 200),
       Log INFO (Category_Updated ''Games/Microsoft/Windows/Foo (2019)''),
       Sent (Add_Tags (JStr ''aaa111'') ''GGn-Sorted'') (status_only 500),
       Log WARNING (Tag_Failed (JStr ''Foo'')),
       Log INFO (Updated_Count 1)],
      [])"
  by code_simp

section \<open>The claims\<close>

subsection \<open>Claim C1\<close>

text \<open>
  Claim C1 (subcategory derivation). The claim maps the content types update, dlc and patch,
  in any case, to the labels \<^verbatim>\<open>/Update\<close>, \<^verbatim>\<open>/DLC\<close> and \<^verbatim>\<open>/Patch\<close>, and an absent or
  empty content type to the empty subcategory. The code computes exactly this in lines 256
  to 266 and then overwrites it in lines 269 and 270: for the content type \<^verbatim>\<open>dlc\<close> the
  category ends with \<^verbatim>\<open>/dlc\<close>, where the claim has \<^verbatim>\<open>/DLC\<close>, and for a release section
  without a content type it ends with \<^verbatim>\<open>/\<close>, where the claim has nothing.
\<close>

theorem subcategory_is_overwritten:
  "create_category five_charrefs dlc_release (JStr ''abc'')
     = Inr (Some (''Games/Microsoft/Windows/Foo (2019)'' @ ''/dlc''))
   \<and> claimed_subcategory (str_of (dox_type_field dlc_release)) = ''/DLC''
   \<and> create_category five_charrefs untyped_release (JStr ''abc'')
     = Inr (Some (''Games/Microsoft/Windows/Foo (2019)'' @ ''/''))
   \<and> claimed_subcategory (str_of (dox_type_field untyped_release)) = []"
  by code_simp

subsection \<open>Claim C2\<close>

text \<open>
  Claim C2 as it is stated fails: after a conflict the adapter asks for the category to be
  created, and when the creation is refused it returns \<^verbatim>\<open>False\<close> at once; the
  assignment is sent once and never again.
\<close>

theorem creation_failure_ends_without_retry:
  "set_torrent_category scripted logged_in_client (JStr ''aaa111'') ''Games/Sony/PS/Foo (2019)''
     [status_only 409, status_only 500, status_only 200]
   = (Inr False,
      [Sent (Set_Category (JStr ''aaa111'') ''Games/Sony/PS/Foo (2019)'') (status_only 409),
       Log INFO (Category_Missing ''Games/Sony/PS/Foo (2019)''),
       Sent (Create_Category ''Games/Sony/PS/Foo (2019)'' []) (status_only 500),
       Log ERROR (Category_Not_Created ''Games/Sony/PS/Foo (2019)'')],
      [status_only 200])"
  by code_simp

text \<open>
  Claim C2 (conflict recovery), amended. For a client that is logged in and an assignment
  that the server answers: without a conflict the call returns whether the status is 200;
  on a conflict (409) it asks for the category to be created, and when that is answered
  with 200 it sends the assignment a second time and returns whether this one is answered
  with 200, and when the creation is answered with another status it returns
  \<^verbatim>\<open>False\<close> with no second assignment. No call sends the assignment more than twice,
  and against a service that answers 409 exactly for the categories that do not exist,
  and creates them on request, the call succeeds for every category.
\<close>

theorem conflict_recovery:
  assumes "logged_in qb" and "srv (Set_Category h c) s = (Reply r1, s1)"
  shows "(status_code r1 \<noteq> 409 \<longrightarrow>
            set_torrent_category srv qb h c s
              = (Inr (status_code r1 = 200), [Sent (Set_Category h c) (Reply r1)], s1))
         \<and> (status_code r1 = 409 \<longrightarrow>
              (\<forall>r2 s2. srv (Create_Category c []) s1 = (Reply r2, s2) \<longrightarrow>
                 (status_code r2 \<noteq> 200 \<longrightarrow>
                    set_torrent_category srv qb h c s
                      = (Inr False,
                         [Sent (Set_Category h c) (Reply r1), Log INFO (Category_Missing c),
                          Sent (Create_Category c []) (Reply r2),
                          Log ERROR (Category_Not_Created c)], s2))
                 \<and> (status_code r2 = 200 \<longrightarrow>
                      (\<forall>r3 s3. srv (Set_Category h c) s2 = (Reply r3, s3) \<longrightarrow>
                         set_torrent_category srv qb h c s
                           = (Inr (status_code r3 = 200),
                              [Sent (Set_Category h c) (Reply r1), Log INFO (Category_Missing c),
                               Sent (Create_Category c []) (Reply r2),
                               Log INFO (Category_Created c),
                               Sent (Set_Category h c) (Reply r3)], s3)))))
         \<and> length (filter is_assignment (fst (snd (set_torrent_category srv qb h c s)))) \<le> 2
         \<and> fst (set_torrent_category category_service qb h c categories) = Inr True"
proof -
  have a: "status_code r1 \<noteq> 409 \<longrightarrow>
            set_torrent_category srv qb h c s
              = (Inr (status_code r1 = 200), [Sent (Set_Category h c) (Reply r1)], s1)"
    using assms by (simp add: set_torrent_category_def prog_defs)
  have b: "status_code r1 = 409 \<longrightarrow>
              (\<forall>r2 s2. srv (Create_Category c []) s1 = (Reply r2, s2) \<longrightarrow>
                 (status_code r2 \<noteq> 200 \<longrightarrow>
                    set_torrent_category srv qb h c s
                      = (Inr False,
                         [Sent (Set_Category h c) (Reply r1), Log INFO (Category_Missing c),
                          Sent (Create_Category c []) (Reply r2),
                          Log ERROR (Category_Not_Created c)], s2))
                 \<and> (status_code r2 = 200 \<longrightarrow>
                      (\<forall>r3 s3. srv (Set_Category h c) s2 = (Reply r3, s3) \<longrightarrow>
                         set_torrent_category srv qb h c s
                           = (Inr (status_code r3 = 200),
                              [Sent (Set_Category h c) (Reply r1), Log INFO (Category_Missing c),
                               Sent (Create_Category c []) (Reply r2),
                               Log INFO (Category_Created c),
                               Sent (Set_Category h c) (Reply r3)], s3))))"
    using assms by (simp add: set_torrent_category_def qb_create_category_def prog_defs)
  show ?thesis
    apply (intro conjI)
       apply (rule a)
      apply (rule b)
     apply (rule set_torrent_category_assignments)
    by (rule category_service_accepts [OF assms(1)])
qed

theorem conflict_recovery_witness:
  "logged_in logged_in_client
   \<and> scripted (Set_Category (JStr ''aaa111'') ''Games/Sony/PS/Foo (2019)'')
         [status_only 409, status_only 200, status_only 200]
       = (status_only 409, [status_only 200, status_only 200])
   \<and> scripted (Create_Category ''Games/Sony/PS/Foo (2019)'' []) [status_only 200, status_only 200]
       = (status_only 200, [status_only 200])
   \<and> scripted (Set_Category (JStr ''aaa111'') ''Games/Sony/PS/Foo (2019)'') [status_only 200]
       = (status_only 200, [])
   \<and> fst (set_torrent_category scripted logged_in_client (JStr ''aaa111'')
            ''Games/Sony/PS/Foo (2019)'' [status_only 409, status_only 200, status_only 200])
       = Inr True"
proof -
  have l: "logged_in logged_in_client" by code_simp
  have s1: "scripted (Set_Category (JStr ''aaa111'') ''Games/Sony/PS/Foo (2019)'')
         [status_only 409, status_only 200, status_only 200]
       = (Reply \<lparr>status_code = 409, body_text = [], body_json = None\<rparr>,
          [status_only 200, status_only 200])"
    by (simp add: scripted_def status_only_def)
  have s2: "scripted (Create_Category ''Games/Sony/PS/Foo (2019)'' []) [status_only 200, status_only 200]
       = (Reply \<lparr>status_code = 200, body_text = [], body_json = None\<rparr>, [status_only 200])"
    by (simp add: scripted_def status_only_def)
  have s3: "scripted (Set_Category (JStr ''aaa111'') ''Games/Sony/PS/Foo (2019)'') [status_only 200]
       = (Reply \<lparr>status_code = 200, body_text = [], body_json = None\<rparr>, [])"
    by (simp add: scripted_def status_only_def)
  note th = conflict_recovery [where srv = scripted and qb = logged_in_client
      and h = "JStr ''aaa111''" and c = "''Games/Sony/PS/Foo (2019)''"
      and s = "[status_only 409, status_only 200, status_only 200]",
      OF l s1, THEN conjunct2, THEN conjunct1]
  have "fst (set_torrent_category scripted logged_in_client (JStr ''aaa111'')
            ''Games/Sony/PS/Foo (2019)'' [status_only 409, status_only 200, status_only 200])
       = Inr True"
    using th s2 s3 by simp
  with l s1 s2 s3 show ?thesis by (simp add: status_only_def)
qed

subsection \<open>Claim C3\<close>

text \<open>
  Claim C3 (isolation of the failures of one torrent). The claim lets no exception leave
  the processing of a torrent. In the code the request for the trackers stands outside any
  \<^verbatim>\<open>try\<close>, whereas the login, the request to GazelleGames and the block from the
  derivation to the tagging each have their handler: a timeout of the tracker request of
  the first torrent ends the run with the exception, the second torrent is never
  processed and no count is reported. An answer of GazelleGames whose payload is a list
  that is not empty leaves the run as well, through the handler's \<^verbatim>\<open>api_data.keys()\<close>.
\<close>

theorem tracker_timeout_escapes:
  "sync_torrents scripted five_charrefs logged_in_client ''key''
     [ok_json (JArr [torrent_a, torrent_b]), No_Reply, ok_json gazelle_trackers]
   = (Inl RequestException,
      [Sent Torrents_Info (ok_json (JArr [torrent_a, torrent_b])), Log INFO (Retrieved 2 2),
       Sent (Torrent_Trackers (JStr ''aaa111'')) No_Reply],
      [ok_json gazelle_trackers])
   \<and> fst (sync_torrents scripted five_charrefs logged_in_client ''key''
            [ok_json (JArr [torrent_a, torrent_b]), ok_json gazelle_trackers,
             ggn_success (JArr [JInt 1]), ok_json gazelle_trackers])
     = Inl AttributeError"
  by code_simp

subsection \<open>Claim C4\<close>

text \<open>
  Claim C4 (exclusion of the processed torrents). The claim, like the docstring of
  \<^verbatim>\<open>get_torrents\<close>, lists exactly the torrents that are not tagged with the marker. The
  code tests whether the marker occurs in the string of the tags: a torrent with the tags
  \<^verbatim>\<open>GGn-Sorted-Old, Action\<close> does not bear the marker, and the claim lists it, but the
  code leaves it out.
\<close>

theorem similar_tag_is_excluded:
  "get_torrents scripted logged_in_client [ok_json (JArr [relabelled_torrent, torrent_b])]
     = (Inr (Some [torrent_b]),
        [Sent Torrents_Info (ok_json (JArr [relabelled_torrent, torrent_b])),
         Log INFO (Retrieved 1 2)],
        [])
   \<and> tag_set relabelled_torrent = [''GGn-Sorted-Old'', ''Action'']
   \<and> claimed_unprocessed [relabelled_torrent, torrent_b] = [relabelled_torrent, torrent_b]"
  by code_simp

subsection \<open>Claim C5\<close>




subsection \<open>Claim C6\<close>

text \<open>
  Claim C6 as it is stated fails: the platform \<^verbatim>\<open>PlayStation PC\<close> contains
  \<^verbatim>\<open>playstation\<close> in lower case, and its manufacturer is Microsoft, since the key
  \<^verbatim>\<open>pc\<close> stands before the key \<^verbatim>\<open>playstation\<close> in the table.
\<close>

theorem playstation_is_not_always_sony:
  "truthy playstation_pc \<and> well_formed playstation_pc
   \<and> str_contains ''playstation'' (lower (platform_of playstation_pc))
   \<and> create_category five_charrefs playstation_pc JNull
       = Inr (Some ''Games/Microsoft/PlayStation PC/Foo (2019)'')"
  by code_simp

text \<open>
  Claim C6 (manufacturer resolution), amended. For every metadata that the deriver can read,
  with \<open>p\<close> its platform, stripped and in lower case: the manufacturer segment is the
  label of the first entry of the table whose key occurs in \<open>p\<close>, and \<^verbatim>\<open>Unknown\<close> when
  no key occurs. So a platform with \<^verbatim>\<open>windows\<close>, \<^verbatim>\<open>pc\<close> or \<^verbatim>\<open>xbox\<close> gives Microsoft;
  one with \<^verbatim>\<open>playstation\<close> gives Sony when it has none of these three; one with
  \<^verbatim>\<open>switch\<close>, \<^verbatim>\<open>wii\<close> or \<^verbatim>\<open>gamecube\<close> gives Nintendo when it has none of the keys of
  Microsoft and Sony.
\<close>

theorem manufacturer_first_match:
  assumes "truthy api_data" and "well_formed api_data"
    and "p = lower (platform_of api_data)"
  shows "create_category charref_sub api_data h =
           Inr (Some (compose_category (manufacturer_of api_data) (platform_of api_data)
                        (title_of charref_sub api_data) (year_of api_data)
                        (derived_subcategory api_data)))
         \<and> (\<forall>i < length manufacturer_map.
               str_contains (fst (manufacturer_map ! i)) p
               \<and> (\<forall>j < i. \<not> str_contains (fst (manufacturer_map ! j)) p)
               \<longrightarrow> manufacturer_of api_data = snd (manufacturer_map ! i))
         \<and> ((\<forall>k \<in> set (map fst manufacturer_map). \<not> str_contains k p)
               \<longrightarrow> manufacturer_of api_data = ''Unknown'')
         \<and> (str_contains ''windows'' p \<or> str_contains ''pc'' p \<or> str_contains ''xbox'' p
               \<longrightarrow> manufacturer_of api_data = ''Microsoft'')
         \<and> (str_contains ''playstation'' p \<and> \<not> str_contains ''windows'' p
             \<and> \<not> str_contains ''pc'' p \<and> \<not> str_contains ''xbox'' p
               \<longrightarrow> manufacturer_of api_data = ''Sony'')
         \<and> ((str_contains ''switch'' p \<or> str_contains ''wii'' p \<or> str_contains ''gamecube'' p)
             \<and> \<not> str_contains ''windows'' p \<and> \<not> str_contains ''pc'' p
             \<and> \<not> str_contains ''xbox'' p \<and> \<not> str_contains ''playstation'' p
               \<longrightarrow> manufacturer_of api_data = ''Nintendo'')"
proof -
  have m: "manufacturer_of api_data = find_manufacturer manufacturer_map p"
    by (simp add: manufacturer_of_def assms(3))
  have a: "\<forall>i < length manufacturer_map.
               str_contains (fst (manufacturer_map ! i)) p
               \<and> (\<forall>j < i. \<not> str_contains (fst (manufacturer_map ! j)) p)
               \<longrightarrow> manufacturer_of api_data = snd (manufacturer_map ! i)"
    unfolding m using find_manufacturer_first by blast
  have b: "(\<forall>k \<in> set (map fst manufacturer_map). \<not> str_contains k p)
               \<longrightarrow> manufacturer_of api_data = ''Unknown''"
    unfolding m using find_manufacturer_none [of manufacturer_map p] by simp
  have c: "str_contains ''windows'' p \<or> str_contains ''pc'' p \<or> str_contains ''xbox'' p
               \<longrightarrow> manufacturer_of api_data = ''Microsoft''"
    unfolding m using microsoft by blast
  have d: "str_contains ''playstation'' p \<and> \<not> str_contains ''windows'' p
             \<and> \<not> str_contains ''pc'' p \<and> \<not> str_contains ''xbox'' p
               \<longrightarrow> manufacturer_of api_data = ''Sony''"
    unfolding m using sony by blast
  have e: "(str_contains ''switch'' p \<or> str_contains ''wii'' p \<or> str_contains ''gamecube'' p)
             \<and> \<not> str_contains ''windows'' p \<and> \<not> str_contains ''pc'' p
             \<and> \<not> str_contains ''xbox'' p \<and> \<not> str_contains ''playstation'' p
               \<longrightarrow> manufacturer_of api_data = ''Nintendo''"
    unfolding m using nintendo by blast
  show ?thesis
    using create_category_well_formed [OF assms(1,2), of charref_sub h] a b c d e by blast
qed

theorem manufacturer_first_match_witness:
  "truthy playstation_4 \<and> well_formed playstation_4
   \<and> str_contains ''playstation'' (lower (platform_of playstation_4))
   \<and> \<not> str_contains ''windows'' (lower (platform_of playstation_4))
   \<and> \<not> str_contains ''pc'' (lower (platform_of playstation_4))
   \<and> \<not> str_contains ''xbox'' (lower (platform_of playstation_4))
   \<and> manufacturer_of playstation_4 = ''Sony''
   \<and> create_category five_charrefs playstation_4 JNull
       = Inr (Some ''Games/Sony/PlayStation 4/Foo (2019)'')"
proof -
  have t: "truthy playstation_4" by code_simp
  have w: "well_formed playstation_4" by code_simp
  have p: "str_contains ''playstation'' (lower (platform_of playstation_4))
   \<and> \<not> str_contains ''windows'' (lower (platform_of playstation_4))
   \<and> \<not> str_contains ''pc'' (lower (platform_of playstation_4))
   \<and> \<not> str_contains ''xbox'' (lower (platform_of playstation_4))" by code_simp
  have c: "create_category five_charrefs playstation_4 JNull
       = Inr (Some ''Games/Sony/PlayStation 4/Foo (2019)'')" by code_simp
  from manufacturer_first_match [OF t w refl, of five_charrefs JNull] p
  have "manufacturer_of playstation_4 = ''Sony''" by blast
  with t w p c show ?thesis by blast
qed

subsection \<open>Claim C7\<close>

text \<open>
  Claim C7 (a tagging failure does not revert the category). The claim counts every torrent
  whose category was set, whatever becomes of the tagging. So does the code when the
  tagging request is answered: in the run where the server refuses the tag with 500, the
  warning is logged and the count 1 is reported. But \<^verbatim>\<open>updated_count += 1\<close> stands
  behind the call of \<^verbatim>\<open>add_torrent_tags\<close> inside the \<^verbatim>\<open>try\<close>, and the request has no
  handler of its own: when it raises (a timeout), the handler of the \<^verbatim>\<open>try\<close> takes
  over, and the run, whose one assignment was acknowledged and logged as a success,
  reports the count 0.
\<close>

theorem tagging_timeout_is_not_counted:
  "fst tag_timeout_run = Inr ()
   \<and> Log INFO (Category_Updated ''Games/Microsoft/Windows/Foo (2019)'')
         \<in> set (fst (snd tag_timeout_run))
   \<and> Sent (Add_Tags (JStr ''aaa111'') ''GGn-Sorted'') No_Reply \<in> set (fst (snd tag_timeout_run))
   \<and> acknowledged (fst (snd tag_timeout_run)) = 1
   \<and> last (fst (snd tag_timeout_run)) = Log INFO (Updated_Count 0)
   \<and> fst tag_refused_run = Inr ()
   \<and> Log WARNING (Tag_Failed (JStr ''Foo'')) \<in> set (fst (snd tag_refused_run))
   \<and> acknowledged (fst (snd tag_refused_run)) = 1
   \<and> last (fst (snd tag_refused_run)) = Log INFO (Updated_Count 1)"
  unfolding tag_timeout_run_events tag_refused_run_events
  by (simp add: acknowledged_def status_only_def)

subsection \<open>Claim C8\<close>

text \<open>
  Claim C8 as it is stated fails: the colon of the platform \<^verbatim>\<open>PC: DOS\<close> and the question
  mark of the year \<^verbatim>\<open>199?\<close> reach the category.
\<close>

theorem platform_is_not_sanitized:
  "create_category five_charrefs colon_platform JNull
     = Inr (Some ''Games/Microsoft/PC: DOS/Foo (199?)'')
   \<and> CHR '':'' \<in> set illegal_chars
   \<and> CHR '':'' \<in> set ''Games/Microsoft/PC: DOS/Foo (199?)''"
  by code_simp

text \<open>
  Claim C8 (characters of the category string), amended. Whenever the deriver returns a
  category, it is the composition of its five parts; the manufacturer, the title and the
  subcategory behind its \<^verbatim>\<open>/\<close> have none of the characters \<^verbatim>\<open>< > : " / \ | ? *\<close>; the
  platform and the year are inserted as they are, so the category is free of
  \<^verbatim>\<open>< > : " \ | ? *\<close> exactly when the platform and the year are.
\<close>

theorem category_characters:
  assumes "create_category charref_sub api_data h = Inr (Some category)"
  shows "category = compose_category (manufacturer_of api_data) (platform_of api_data)
                      (title_of charref_sub api_data) (year_of api_data)
                      (derived_subcategory api_data)
         \<and> set (manufacturer_of api_data) \<inter> set illegal_chars = {}
         \<and> set (title_of charref_sub api_data) \<inter> set illegal_chars = {}
         \<and> set (drop 1 (derived_subcategory api_data)) \<inter> set illegal_chars = {}
         \<and> (set category \<inter> (set illegal_chars - {CHR ''/''}) = {}
              \<longleftrightarrow> set (platform_of api_data) \<inter> (set illegal_chars - {CHR ''/''}) = {}
                \<and> set (year_of api_data) \<inter> (set illegal_chars - {CHR ''/''}) = {})"
proof -
  note tw = create_category_Some [OF assms]
  have c: "category = compose_category (manufacturer_of api_data) (platform_of api_data)
                      (title_of charref_sub api_data) (year_of api_data)
                      (derived_subcategory api_data)"
    using create_category_well_formed [OF tw, of charref_sub h] assms by simp
  have m: "set (manufacturer_of api_data) \<inter> set illegal_chars = {}"
    unfolding manufacturer_of_def by (rule manufacturer_clean)
  have t: "set (title_of charref_sub api_data) \<inter> set illegal_chars = {}"
    unfolding title_of_def by (rule title_clean)
  note e = compose_category_characters [OF m t derived_subcategory_clean(2),
      of "platform_of api_data" "year_of api_data" api_data]
  show ?thesis
    apply (intro conjI)
        apply (rule c)
       apply (rule m)
      apply (rule t)
     apply (rule derived_subcategory_clean(1))
    unfolding c by (rule e)
qed

theorem category_characters_witness:
  "create_category five_charrefs release_only JNull
     = Inr (Some ''Games/Unknown//Unknown Game (Unknown)/Update'')
   \<and> set (platform_of release_only) \<inter> (set illegal_chars - {CHR ''/''}) = {}
   \<and> set (year_of release_only) \<inter> (set illegal_chars - {CHR ''/''}) = {}
   \<and> set ''Games/Unknown//Unknown Game (Unknown)/Update'' \<inter> (set illegal_chars - {CHR ''/''}) = {}"
proof -
  have c: "create_category five_charrefs release_only JNull
     = Inr (Some ''Games/Unknown//Unknown Game (Unknown)/Update'')" by code_simp
  have p: "set (platform_of release_only) \<inter> (set illegal_chars - {CHR ''/''}) = {}"
    by code_simp
  have y: "set (year_of release_only) \<inter> (set illegal_chars - {CHR ''/''}) = {}"
    by code_simp
  note th = category_characters [OF c]
  have "set ''Games/Unknown//Unknown Game (Unknown)/Update'' \<inter> (set illegal_chars - {CHR ''/''}) = {}"
    by (rule iffD2 [OF th [THEN conjunct2, THEN conjunct2, THEN conjunct2, THEN conjunct2]
          conjI [OF p y]])
  with c p y show ?thesis by (intro conjI)
qed

subsection \<open>Claim C9\<close>

text \<open>
  Claim C9 as it is stated fails: metadata that is present, with a platform that is
  \<^verbatim>\<open>null\<close>, makes \<^verbatim>\<open>.strip()\<close> raise, and the deriver returns no category.
\<close>

theorem null_platform_raises:
  "truthy null_platform \<and> create_category five_charrefs null_platform JNull = Inl AttributeError"
  by code_simp

text \<open>
  Claim C9 (the deriver on present metadata), amended. For metadata that is present
  (truthy) the deriver never returns \<^verbatim>\<open>None\<close> or the empty string. It returns a string
  that begins with \<^verbatim>\<open>Games/\<close> when the metadata has the shape it reads, and raises
  AttributeError or TypeError when not. Without a group section the category is
  \<^verbatim>\<open>Games/Unknown//Unknown Game (Unknown)\<close> and the subcategory. In the driver, which
  derives a category from present metadata only, the branch for a missing category
  (lines 386 to 395) is never taken: the \<^verbatim>\<open>try\<close> statement equals the one without it.
\<close>

theorem deriver_on_present_metadata:
  assumes "truthy api_data"
  shows "create_category charref_sub api_data h \<noteq> Inr None
         \<and> create_category charref_sub api_data h \<noteq> Inr (Some [])
         \<and> (well_formed api_data \<longrightarrow>
               (\<exists>c. create_category charref_sub api_data h = Inr (Some c)
                    \<and> starts_with ''Games/'' c))
         \<and> (\<not> well_formed api_data \<longrightarrow>
               create_category charref_sub api_data h = Inl AttributeError
               \<or> create_category charref_sub api_data h = Inl TypeError)
         \<and> (well_formed api_data \<and> ''group'' \<notin> fst ` set (items_of api_data) \<longrightarrow>
               create_category charref_sub api_data h =
                 Inr (Some (''Games/Unknown//Unknown Game (Unknown)''
                              @ derived_subcategory api_data)))
         \<and> categorize srv charref_sub qb h name api_data n =
             try_except
               (io_bind (lift (create_category charref_sub api_data h)) (\<lambda>category.
                  apply_category srv qb h name (case category of None \<Rightarrow> [] | Some c \<Rightarrow> c) n))
               (report_exception name api_data n)"
proof -
  have a: "create_category charref_sub api_data h \<noteq> Inr None"
    using create_category_present [OF assms, of charref_sub h None] by auto
  have b: "create_category charref_sub api_data h \<noteq> Inr (Some [])"
    using create_category_present [OF assms, of charref_sub h "Some []"] by auto
  have c: "well_formed api_data \<longrightarrow>
               (\<exists>c. create_category charref_sub api_data h = Inr (Some c)
                    \<and> starts_with ''Games/'' c)"
    using create_category_well_formed [OF assms, of charref_sub h]
    by (simp add: compose_category_def)
  have d: "\<not> well_formed api_data \<longrightarrow>
               create_category charref_sub api_data h = Inl AttributeError
               \<or> create_category charref_sub api_data h = Inl TypeError"
    using create_category_ill_formed [OF assms, of charref_sub h]
      create_category_error_kind [of charref_sub api_data h] by auto
  have e: "well_formed api_data \<and> ''group'' \<notin> fst ` set (items_of api_data) \<longrightarrow>
               create_category charref_sub api_data h =
                 Inr (Some (''Games/Unknown//Unknown Game (Unknown)''
                              @ derived_subcategory api_data))"
    using create_category_well_formed [OF assms, of charref_sub h] no_group_section
    by (simp add: compose_category_def)
  show ?thesis
    apply (intro conjI)
         apply (rule a)
        apply (rule b)
       apply (rule c)
      apply (rule d)
     apply (rule e)
    by (rule categorize_present [OF assms])
qed

theorem deriver_on_present_metadata_witness:
  "truthy no_group \<and> well_formed no_group \<and> ''group'' \<notin> fst ` set (items_of no_group)
   \<and> create_category five_charrefs no_group JNull
       = Inr (Some (''Games/Unknown//Unknown Game (Unknown)'' @ derived_subcategory no_group))
   \<and> derived_subcategory no_group = []"
proof -
  have t: "truthy no_group" by code_simp
  have w: "well_formed no_group" by code_simp
  have g: "''group'' \<notin> fst ` set (items_of no_group)" by code_simp
  have d: "derived_subcategory no_group = []" by code_simp
  note th = deriver_on_present_metadata [OF t, of five_charrefs JNull]
  have "create_category five_charrefs no_group JNull
       = Inr (Some (''Games/Unknown//Unknown Game (Unknown)'' @ derived_subcategory no_group))"
    by (rule mp [OF th [THEN conjunct2, THEN conjunct2, THEN conjunct2, THEN conjunct2,
            THEN conjunct1] conjI [OF w g]])
  with t w g d show ?thesis by (intro conjI)
qed

subsection \<open>Claim C10\<close>

text \<open>
  Claim C10 (an empty work list aborts the run). When the listing returns \<^verbatim>\<open>None\<close> or
  the empty list, the driver logs the retrieval failure and returns: behind the events of
  the listing there is this one message, no request for trackers and no report of a
  count, and the two cases end alike. So it is when the server lists only torrents whose
  tags have the marker.
\<close>

theorem empty_listing_aborts:
  assumes "get_torrents srv qb s = (Inr torrents, evs, s')"
    and "torrents = None \<or> torrents = Some []"
  shows "sync_torrents srv charref_sub qb ggn_api_key s
           = (Inr (), evs @ [Log ERROR Retrieve_Failed], s')
         \<and> filter is_tracker_request (evs @ [Log ERROR Retrieve_Failed]) = []
         \<and> filter is_report (evs @ [Log ERROR Retrieve_Failed]) = []
         \<and> (\<forall>r items s0 s1.
              logged_in qb \<and> srv Torrents_Info s0 = (Reply r, s1) \<and> status_code r = 200
              \<and> body_json r = Some (JArr items)
              \<and> (\<forall>t \<in> set items.
                    is_dict t \<and> is_str (dict_get (items_of t) ''tags'' (JStr []))
                    \<and> str_contains ''GGn-Sorted'' (str_of (dict_get (items_of t) ''tags'' (JStr []))))
              \<longrightarrow> sync_torrents srv charref_sub qb ggn_api_key s0
                    = (Inr (),
                       [Sent Torrents_Info (Reply r), Log INFO (Retrieved 0 (length items)),
                        Log ERROR Retrieve_Failed], s1))"
proof -
  have a: "sync_torrents srv charref_sub qb ggn_api_key s
           = (Inr (), evs @ [Log ERROR Retrieve_Failed], s')"
    using assms by (auto simp: sync_torrents_def io_bind_def log_def)
  have b: "filter is_tracker_request (evs @ [Log ERROR Retrieve_Failed]) = []"
    using get_torrents_events(1) [OF assms(1)] by simp
  have c: "filter is_report (evs @ [Log ERROR Retrieve_Failed]) = []"
    using get_torrents_events(2) [OF assms(1)] by simp
  have d: "\<forall>r items s0 s1.
              logged_in qb \<and> srv Torrents_Info s0 = (Reply r, s1) \<and> status_code r = 200
              \<and> body_json r = Some (JArr items)
              \<and> (\<forall>t \<in> set items.
                    is_dict t \<and> is_str (dict_get (items_of t) ''tags'' (JStr []))
                    \<and> str_contains ''GGn-Sorted'' (str_of (dict_get (items_of t) ''tags'' (JStr []))))
              \<longrightarrow> sync_torrents srv charref_sub qb ggn_api_key s0
                    = (Inr (),
                       [Sent Torrents_Info (Reply r), Log INFO (Retrieved 0 (length items)),
                        Log ERROR Retrieve_Failed], s1)"
  proof (intro allI impI)
    fix r items s0 s1
    assume h: "logged_in qb \<and> srv Torrents_Info s0 = (Reply r, s1) \<and> status_code r = 200
              \<and> body_json r = Some (JArr items)
              \<and> (\<forall>t \<in> set items.
                    is_dict t \<and> is_str (dict_get (items_of t) ''tags'' (JStr []))
                    \<and> str_contains ''GGn-Sorted'' (str_of (dict_get (items_of t) ''tags'' (JStr []))))"
    then have "get_torrents srv qb s0 =
           (Inr (Some []), [Sent Torrents_Info (Reply r), Log INFO (Retrieved 0 (length items))], s1)"
      using all_sorted_listing [of qb srv s0 r s1 items] by blast
    then show "sync_torrents srv charref_sub qb ggn_api_key s0
                    = (Inr (),
                       [Sent Torrents_Info (Reply r), Log INFO (Retrieved 0 (length items)),
                        Log ERROR Retrieve_Failed], s1)"
      by (simp add: sync_torrents_def io_bind_def log_def)
  qed
  show ?thesis
    apply (intro conjI)
       apply (rule a)
      apply (rule b)
     apply (rule c)
    by (rule d)
qed

theorem empty_listing_aborts_witness:
  "get_torrents scripted logged_in_client [ok_json (JArr [sorted_torrent]), ok_json gazelle_trackers]
     = (Inr (Some []),
        [Sent Torrents_Info (ok_json (JArr [sorted_torrent])), Log INFO (Retrieved 0 1)],
        [ok_json gazelle_trackers])
   \<and> sync_torrents scripted five_charrefs logged_in_client ''key''
         [ok_json (JArr [sorted_torrent]), ok_json gazelle_trackers]
     = (Inr (),
        [Sent Torrents_Info (ok_json (JArr [sorted_torrent])), Log INFO (Retrieved 0 1)]
          @ [Log ERROR Retrieve_Failed],
        [ok_json gazelle_trackers])"
proof -
  have g: "get_torrents scripted logged_in_client [ok_json (JArr [sorted_torrent]), ok_json gazelle_trackers]
     = (Inr (Some []),
        [Sent Torrents_Info (ok_json (JArr [sorted_torrent])), Log INFO (Retrieved 0 1)],
        [ok_json gazelle_trackers])"
    by code_simp
  have e: "Some [] = None \<or> Some [] = Some ([] :: json list)" by simp
  note th = empty_listing_aborts [OF g e, of five_charrefs "''key''", THEN conjunct1]
  from g th show ?thesis by (intro conjI)
qed

end
